theory Spec2Isabelle
  imports Main "HOL-Library.Sublist" "HOL-Library.Multiset"
begin

section \<open>Python strings\<close>

text \<open>
  A Python \<open>str\<close> is modelled as a \<^typ>\<open>string\<close>: the list of the bytes of its UTF-8
  encoding, which is what \<open>open(filepath, 'w', encoding='utf-8')\<close> writes. Every
  configured developer name, language label and topic is plain ASCII; the only characters
  beyond ASCII are box-drawing characters and a superscript two inside two catalogued
  bodies, written here byte by byte as \<open>CHR 0x..\<close>. Concatenation, \<open>replace\<close> and \<open>split\<close>
  on an ASCII character, comparison and the substring test act on the bytes as they act
  on the characters. Only \<open>str.title()\<close> does not: see \<open>title\<close> below.
  Python's \<open>sub in s\<close> on strings is \<^const>\<open>sublist\<close>, \<open>s.startswith(p)\<close> is
  \<^const>\<open>prefix\<close> and \<open>s.endswith(p)\<close> is \<^const>\<open>suffix\<close>.
\<close>

definition is_cased :: \<open>char \<Rightarrow> bool\<close> where
  \<open>is_cased c = (let n = (of_char c :: nat) in (65 \<le> n \<and> n \<le> 90) \<or> (97 \<le> n \<and> n \<le> 122))\<close>

definition to_upper :: \<open>char \<Rightarrow> char\<close> where
  \<open>to_upper c = (let n = (of_char c :: nat) in if 97 \<le> n \<and> n \<le> 122 then char_of (n - 32) else c)\<close>

definition to_lower :: \<open>char \<Rightarrow> char\<close> where
  \<open>to_lower c = (let n = (of_char c :: nat) in if 65 \<le> n \<and> n \<le> 90 then char_of (n + 32) else c)\<close>

text \<open>
  \<open>str.title()\<close> on a string of ASCII characters: a character that follows a cased
  character is lower-cased, any other character is title-cased (upper-cased, on ASCII);
  the cased ASCII characters are the letters. The flag is CPython's \<open>previous_is_cased\<close>.
\<close>

fun title_from :: \<open>bool \<Rightarrow> string \<Rightarrow> string\<close> where
  \<open>title_from previous_is_cased [] = []\<close>
| \<open>title_from previous_is_cased (c # cs) =
     (if previous_is_cased then to_lower c else to_upper c) # title_from (is_cased c) cs\<close>

definition is_ascii :: \<open>char \<Rightarrow> bool\<close> where
  \<open>is_ascii c = ((of_char c :: nat) < 128)\<close>

text \<open>
  \<open>str.title()\<close>. For a string with a character beyond ASCII the result depends on the
  Unicode case tables of the interpreter, which are no part of the repository: they are
  the parameter \<open>unicode_title\<close>, the function that takes the UTF-8 bytes of such a string
  to the UTF-8 bytes of its \<open>str.title()\<close>. Every function below that title-cases, directly
  or through a call, takes this parameter, and nothing is assumed of it.
\<close>

definition title :: \<open>(string \<Rightarrow> string) \<Rightarrow> string \<Rightarrow> string\<close> where
  \<open>title unicode_title s =
     (if list_all is_ascii s then title_from False s else unicode_title s)\<close>

text \<open>
  A table for the strings with a character beyond ASCII that leaves them as they are: it
  stands where a run needs some table and only ASCII strings are title-cased.
\<close>

definition leave_unchanged :: \<open>string \<Rightarrow> string\<close> where
  \<open>leave_unchanged s = s\<close>

text \<open>
  Title-casing in words, to compare \<open>title\<close> with: \<open>t\<close> is \<open>s\<close> title-cased when it has the
  length of \<open>s\<close> and, at every position, the character of \<open>s\<close> in lower case if the
  character before it is a letter, and in upper case otherwise. The letters and their
  cases are given by the two alphabets; any other character is its own upper and lower
  case.
\<close>

definition lower_letters :: string where
  \<open>lower_letters = ''abcdefghijklmnopqrstuvwxyz''\<close>

definition upper_letters :: string where
  \<open>upper_letters = ''ABCDEFGHIJKLMNOPQRSTUVWXYZ''\<close>

definition is_letter :: \<open>char \<Rightarrow> bool\<close> where
  \<open>is_letter c = (c \<in> set lower_letters \<or> c \<in> set upper_letters)\<close>

definition upper_of :: \<open>char \<Rightarrow> char\<close> where
  \<open>upper_of c = (case map_of (zip lower_letters upper_letters) c of None \<Rightarrow> c | Some u \<Rightarrow> u)\<close>

definition lower_of :: \<open>char \<Rightarrow> char\<close> where
  \<open>lower_of c = (case map_of (zip upper_letters lower_letters) c of None \<Rightarrow> c | Some l \<Rightarrow> l)\<close>

definition title_cased :: \<open>string \<Rightarrow> string \<Rightarrow> bool\<close> where
  \<open>title_cased s t =
     (length t = length s \<and>
      (\<forall>i < length s.
         t ! i = (if 0 < i \<and> is_letter (s ! (i - 1)) then lower_of (s ! i)
                  else upper_of (s ! i))))\<close>

text \<open>\<open>s.replace(old, new)\<close> for one-character \<open>old\<close> and \<open>new\<close>, as in \<open>topic.replace('-', ' ')\<close>.\<close>

definition replace_chr :: \<open>char \<Rightarrow> char \<Rightarrow> string \<Rightarrow> string\<close> where
  \<open>replace_chr old new s = map (\<lambda>c. if c = old then new else c) s\<close>

text \<open>\<open>s.split(sep)\<close> for a one-character separator: the pieces between the separators,
  empty pieces included, so the result is never empty.\<close>

fun split_chr :: \<open>char \<Rightarrow> string \<Rightarrow> string list\<close> where
  \<open>split_chr sep [] = [[]]\<close>
| \<open>split_chr sep (c # cs) =
     (if c = sep then [] # split_chr sep cs
      else (case split_chr sep cs of
              [] \<Rightarrow> [[c]]
            | piece # pieces \<Rightarrow> (c # piece) # pieces))\<close>

section \<open>Errors and dictionaries\<close>

text \<open>
  The exceptions the modelled code can raise. A dictionary literal is an association list
  in source order with distinct keys: \<open>k in d\<close> is \<open>dict_contains\<close>, \<open>d[k]\<close> is \<open>getitem\<close>
  (a \<open>KeyError\<close> on a missing key) and \<open>list(d.keys())\<close> is \<open>map fst d\<close>.
\<close>

datatype error =
    KeyError string
  | IndexError
  | ValueError
  | FileNotFoundError string

definition dict_contains :: \<open>(string \<times> 'v) list \<Rightarrow> string \<Rightarrow> bool\<close> where
  \<open>dict_contains d k = (k \<in> set (map fst d))\<close>

definition getitem :: \<open>(string \<times> 'v) list \<Rightarrow> string \<Rightarrow> error + 'v\<close> where
  \<open>getitem d k = (case map_of d k of None \<Rightarrow> Inl (KeyError k) | Some v \<Rightarrow> Inr v)\<close>

section \<open>The configuration: developers and the content catalog\<close>

text \<open>
  Each value of \<open>LANGUAGE_CONTENT\<close> is a dictionary with exactly the keys \<open>"topics"\<close> (a
  list of topic names) and \<open>"content"\<close> (a dictionary from topic name to Markdown body):
  a record. The bodies are the source's literals, one list element per source line.
\<close>

record language_spec =
  topics :: \<open>string list\<close>
  content :: \<open>(string \<times> string) list\<close>

definition content_golang_code_styling :: string where
  \<open>content_golang_code_styling = concat
    [''# Golang Code Styling Guidelines\<newline>'',
     ''\<newline>'',
     ''## General Principles\<newline>'',
     ''- Use `gofmt` to format your code automatically\<newline>'',
     ''- Follow the official Go Code Review Comments guidelines\<newline>'',
     ''- Use camelCase for exported functions and PascalCase for types\<newline>'',
     ''\<newline>'',
     ''## Naming Conventions\<newline>'',
     ''- Package names should be short, lowercase, single words\<newline>'',
     ''- Interface names should end with \'er\' when possible\<newline>'',
     ''- Use descriptive names for variables with longer scope\<newline>'',
     ''\<newline>'',
     ''## Function Structure\<newline>'',
     ''- Keep functions small and focused on a single responsibility\<newline>'',
     ''- Group related functionality into packages\<newline>'',
     ''- Use early returns to reduce nesting\<newline>'',
     ''\<newline>'',
     ''## Comments\<newline>'',
     ''- Comment exported functions, types, and variables\<newline>'',
     ''- Use complete sentences in comments\<newline>'',
     ''- Avoid obvious comments\<newline>'',
     ''\<newline>'',
     ''## Error Handling\<newline>'',
     ''- Always handle errors explicitly\<newline>'',
     ''- Don\'t ignore errors with `_`\<newline>'',
     ''- Use custom error types when appropriate\<newline>'']\<close>

definition content_golang_error_handling :: string where
  \<open>content_golang_error_handling = concat
    [''# Golang Error Handling Best Practices\<newline>'',
     ''\<newline>'',
     ''## Core Principles\<newline>'',
     ''- Errors are values, not exceptions\<newline>'',
     ''- Handle errors immediately where they occur\<newline>'',
     ''- Don\'t ignore errors\<newline>'',
     ''\<newline>'',
     ''## Error Creation\<newline>'',
     ''```go\<newline>'',
     ''// Use errors.New for simple errors\<newline>'',
     ''err := errors.New("something went wrong")\<newline>'',
     ''\<newline>'',
     ''// Use fmt.Errorf for formatted errors\<newline>'',
     ''err := fmt.Errorf("failed to process %s: %w", filename, originalErr)\<newline>'',
     ''```\<newline>'',
     ''\<newline>'',
     ''## Error Checking\<newline>'',
     ''```go\<newline>'',
     ''if err != nil {\<newline>'',
     ''    return fmt.Errorf("operation failed: %w", err)\<newline>'',
     ''}\<newline>'',
     ''```\<newline>'',
     ''\<newline>'',
     ''## Custom Error Types\<newline>'',
     ''- Implement the error interface for domain-specific errors\<newline>'',
     ''- Use error wrapping to preserve context\<newline>'',
     ''- Consider sentinel errors for expected error conditions\<newline>'',
     ''\<newline>'',
     ''## Testing Errors\<newline>'',
     ''- Test both success and failure paths\<newline>'',
     ''- Verify error messages and types\<newline>'',
     ''- Use testify/assert for error testing\<newline>'']\<close>

definition content_golang_testing :: string where
  \<open>content_golang_testing = concat
    [''# Golang Testing Guidelines\<newline>'',
     ''\<newline>'',
     ''## Test Structure\<newline>'',
     ''- Follow the AAA pattern: Arrange, Act, Assert\<newline>'',
     ''- Use table-driven tests for multiple scenarios\<newline>'',
     ''- Keep tests simple and focused\<newline>'',
     ''\<newline>'',
     ''## Test Naming\<newline>'',
     ''- Use descriptive test function names\<newline>'',
     ''- Format: `TestFunctionName_Scenario_ExpectedResult`\<newline>'',
     ''- Example: `TestCalculateTotal_WithValidItems_ReturnsCorrectSum`\<newline>'',
     ''\<newline>'',
     ''## Test Organization\<newline>'',
     ''```go\<newline>'',
     ''func TestCalculator(t *testing.T) {\<newline>'',
     ''    tests := []struct {\<newline>'',
     ''        name     string\<newline>'',
     ''        input    int\<newline>'',
     ''        expected int\<newline>'',
     ''    }{\<newline>'',
     ''        {"positive number", 5, 5},\<newline>'',
     ''        {"zero", 0, 0},\<newline>'',
     ''        {"negative number", -3, -3},\<newline>'',
     ''    }\<newline>'',
     ''    \<newline>'',
     ''    for _, tt := range tests {\<newline>'',
     ''        t.Run(tt.name, func(t *testing.T) {\<newline>'',
     ''            result := Calculate(tt.input)\<newline>'',
     ''            assert.Equal(t, tt.expected, result)\<newline>'',
     ''        })\<newline>'',
     ''    }\<newline>'',
     ''}\<newline>'',
     ''```\<newline>'',
     ''\<newline>'',
     ''## Best Practices\<newline>'',
     ''- Use testify/require for assertions that should stop the test\<newline>'',
     ''- Use testify/assert for non-critical assertions\<newline>'',
     ''- Mock external dependencies\<newline>'',
     ''- Test edge cases and error conditions\<newline>'']\<close>

definition content_golang_concurrency :: string where
  \<open>content_golang_concurrency = concat
    [''# Golang Concurrency Patterns\<newline>'',
     ''\<newline>'',
     ''## Goroutines\<newline>'',
     ''- Use goroutines for concurrent operations\<newline>'',
     ''- Always have a way to stop goroutines\<newline>'',
     ''- Don\'t create goroutines without bounds\<newline>'',
     ''\<newline>'',
     ''## Channels\<newline>'',
     ''- Use channels to communicate between goroutines\<newline>'',
     ''- Close channels when done sending\<newline>'',
     ''- Use buffered channels to prevent blocking\<newline>'',
     ''\<newline>'',
     ''## Common Patterns\<newline>'',
     ''\<newline>'',
     ''### Worker Pool\<newline>'',
     ''```go\<newline>'',
     ''func workerPool(jobs <-chan Job, results chan<- Result) {\<newline>'',
     ''    for job := range jobs {\<newline>'',
     ''        results <- processJob(job)\<newline>'',
     ''    }\<newline>'',
     ''}\<newline>'',
     ''```\<newline>'',
     ''\<newline>'',
     ''### Fan-out/Fan-in\<newline>'',
     ''- Fan-out: distribute work across multiple goroutines\<newline>'',
     ''- Fan-in: collect results from multiple goroutines\<newline>'',
     ''\<newline>'',
     ''### Pipeline\<newline>'',
     ''- Chain operations using channels\<newline>'',
     ''- Each stage processes data and passes to next stage\<newline>'',
     ''\<newline>'',
     ''## Synchronization\<newline>'',
     ''- Use sync.Mutex for protecting shared state\<newline>'',
     ''- Use sync.WaitGroup to wait for goroutines\<newline>'',
     ''- Prefer channels over shared memory when possible\<newline>'']\<close>

definition content_golang_performance :: string where
  \<open>content_golang_performance = concat
    [''# Golang Performance Optimization\<newline>'',
     ''\<newline>'',
     ''## Profiling\<newline>'',
     ''- Use `go tool pprof` for performance analysis\<newline>'',
     ''- Profile CPU, memory, and goroutine usage\<newline>'',
     ''- Use benchmarks to measure performance\<newline>'',
     ''\<newline>'',
     ''## Memory Management\<newline>'',
     ''- Avoid unnecessary allocations in hot paths\<newline>'',
     ''- Reuse slices and maps when possible\<newline>'',
     ''- Use object pools for expensive objects\<newline>'',
     ''\<newline>'',
     ''## Optimization Techniques\<newline>'',
     ''- Use string.Builder for string concatenation\<newline>'',
     ''- Prefer slices over arrays for flexibility\<newline>'',
     ''- Use interfaces wisely - they have overhead\<newline>'',
     ''\<newline>'',
     ''## Benchmarking\<newline>'',
     ''```go\<newline>'',
     ''func BenchmarkFunction(b *testing.B) {\<newline>'',
     ''    for i := 0; i < b.N; i++ {\<newline>'',
     ''        FunctionToTest()\<newline>'',
     ''    }\<newline>'',
     ''}\<newline>'',
     ''```\<newline>'',
     ''\<newline>'',
     ''## Common Pitfalls\<newline>'',
     ''- Premature optimization\<newline>'',
     ''- Not measuring before optimizing\<newline>'',
     ''- Micro-optimizations at expense of readability\<newline>'',
     ''- Ignoring garbage collection impact\<newline>'']\<close>

definition content_python_code_styling :: string where
  \<open>content_python_code_styling = concat
    [''# Python Code Styling Guidelines\<newline>'',
     ''\<newline>'',
     ''## PEP 8 Compliance\<newline>'',
     ''- Use 4 spaces for indentation\<newline>'',
     ''- Line length maximum of 79 characters\<newline>'',
     ''- Use snake_case for variables and functions\<newline>'',
     ''- Use PascalCase for classes\<newline>'',
     ''\<newline>'',
     ''## Import Organization\<newline>'',
     ''```python\<newline>'',
     ''# Standard library imports\<newline>'',
     ''import os\<newline>'',
     ''import sys\<newline>'',
     ''\<newline>'',
     ''# Third-party imports\<newline>'',
     ''import requests\<newline>'',
     ''import numpy as np\<newline>'',
     ''\<newline>'',
     ''# Local imports\<newline>'',
     ''from myapp import models\<newline>'',
     ''from . import utils\<newline>'',
     ''```\<newline>'',
     ''\<newline>'',
     ''## Function and Class Design\<newline>'',
     ''- Keep functions small and focused\<newline>'',
     ''- Use type hints for better code documentation\<newline>'',
     ''- Follow the single responsibility principle\<newline>'',
     ''\<newline>'',
     ''## Naming Conventions\<newline>'',
     ''- Variables: `user_name`, `total_count`\<newline>'',
     ''- Functions: `calculate_total()`, `send_email()`\<newline>'',
     ''- Classes: `UserManager`, `EmailService`\<newline>'',
     ''- Constants: `MAX_RETRIES`, `DEFAULT_TIMEOUT`\<newline>'',
     ''\<newline>'',
     ''## Documentation\<newline>'',
     ''- Use docstrings for modules, classes, and functions\<newline>'',
     ''- Follow Google or NumPy docstring style\<newline>'',
     ''- Include examples in docstrings when helpful\<newline>'']\<close>

definition content_python_testing :: string where
  \<open>content_python_testing = concat
    [''# Python Testing Best Practices\<newline>'',
     ''\<newline>'',
     ''## Test Framework\<newline>'',
     ''- Use pytest as the primary testing framework\<newline>'',
     ''- Organize tests in separate test files/directories\<newline>'',
     ''- Use fixtures for setup and teardown\<newline>'',
     ''\<newline>'',
     ''## Test Structure\<newline>'',
     ''```python\<newline>'',
     ''def test_function_name_scenario_expected_result():\<newline>'',
     ''    # Arrange\<newline>'',
     ''    input_data = {"key": "value"}\<newline>'',
     ''    \<newline>'',
     ''    # Act\<newline>'',
     ''    result = function_under_test(input_data)\<newline>'',
     ''    \<newline>'',
     ''    # Assert\<newline>'',
     ''    assert result == expected_value\<newline>'',
     ''```\<newline>'',
     ''\<newline>'',
     ''## Test Organization\<newline>'',
     ''- Group related tests in classes\<newline>'',
     ''- Use parametrize for testing multiple scenarios\<newline>'',
     ''- Mock external dependencies\<newline>'',
     ''\<newline>'',
     ''## Coverage and Quality\<newline>'',
     ''- Aim for high test coverage (>90%)\<newline>'',
     ''- Test edge cases and error conditions\<newline>'',
     ''- Use property-based testing with hypothesis\<newline>'',
     ''\<newline>'',
     ''## Fixtures and Mocking\<newline>'',
     ''```python\<newline>'',
     ''@pytest.fixture\<newline>'',
     ''def sample_data():\<newline>'',
     ''    return {"id": 1, "name": "test"}\<newline>'',
     ''\<newline>'',
     ''@mock.patch(\'module.external_service\')\<newline>'',
     ''def test_with_mock(mock_service):\<newline>'',
     ''    mock_service.return_value = "mocked_response"\<newline>'',
     ''    # Test code here\<newline>'',
     ''```\<newline>'']\<close>

definition content_python_packaging :: string where
  \<open>content_python_packaging = concat
    [''# Python Packaging Guidelines\<newline>'',
     ''\<newline>'',
     ''## Project Structure\<newline>'',
     ''```\<newline>'',
     ''project/\<newline>'',
     [CHR 0xE2, CHR 0x94, CHR 0x9C, CHR 0xE2, CHR 0x94, CHR 0x80, CHR 0xE2, CHR 0x94, CHR 0x80] @ '' src/\<newline>'',
     [CHR 0xE2, CHR 0x94, CHR 0x82] @ ''   '' @ [CHR 0xE2, CHR 0x94, CHR 0x94, CHR 0xE2, CHR 0x94, CHR 0x80, CHR 0xE2, CHR 0x94, CHR 0x80] @ '' mypackage/\<newline>'',
     [CHR 0xE2, CHR 0x94, CHR 0x82] @ ''       '' @ [CHR 0xE2, CHR 0x94, CHR 0x9C, CHR 0xE2, CHR 0x94, CHR 0x80, CHR 0xE2, CHR 0x94, CHR 0x80] @ '' __init__.py\<newline>'',
     [CHR 0xE2, CHR 0x94, CHR 0x82] @ ''       '' @ [CHR 0xE2, CHR 0x94, CHR 0x94, CHR 0xE2, CHR 0x94, CHR 0x80, CHR 0xE2, CHR 0x94, CHR 0x80] @ '' module.py\<newline>'',
     [CHR 0xE2, CHR 0x94, CHR 0x9C, CHR 0xE2, CHR 0x94, CHR 0x80, CHR 0xE2, CHR 0x94, CHR 0x80] @ '' tests/\<newline>'',
     [CHR 0xE2, CHR 0x94, CHR 0x9C, CHR 0xE2, CHR 0x94, CHR 0x80, CHR 0xE2, CHR 0x94, CHR 0x80] @ '' pyproject.toml\<newline>'',
     [CHR 0xE2, CHR 0x94, CHR 0x9C, CHR 0xE2, CHR 0x94, CHR 0x80, CHR 0xE2, CHR 0x94, CHR 0x80] @ '' README.md\<newline>'',
     [CHR 0xE2, CHR 0x94, CHR 0x94, CHR 0xE2, CHR 0x94, CHR 0x80, CHR 0xE2, CHR 0x94, CHR 0x80] @ '' requirements.txt\<newline>'',
     ''```\<newline>'',
     ''\<newline>'',
     ''## Dependency Management\<newline>'',
     ''- Use virtual environments for isolation\<newline>'',
     ''- Pin dependency versions in requirements.txt\<newline>'',
     ''- Use requirements-dev.txt for development dependencies\<newline>'',
     ''\<newline>'',
     ''## Setup Configuration\<newline>'',
     ''```toml\<newline>'',
     ''[build-system]\<newline>'',
     ''requires = ["setuptools>=45", "wheel"]\<newline>'',
     ''build-backend = "setuptools.build_meta"\<newline>'',
     ''\<newline>'',
     ''[project]\<newline>'',
     ''name = "mypackage"\<newline>'',
     ''version = "0.1.0"\<newline>'',
     ''description = "A sample package"\<newline>'',
     ''dependencies = [\<newline>'',
     ''    "requests>=2.25.0",\<newline>'',
     ''    "click>=7.0",\<newline>'',
     '']\<newline>'',
     ''```\<newline>'',
     ''\<newline>'',
     ''## Distribution\<newline>'',
     ''- Use semantic versioning (MAJOR.MINOR.PATCH)\<newline>'',
     ''- Include comprehensive README and CHANGELOG\<newline>'',
     ''- Use GitHub Actions for CI/CD\<newline>'',
     ''- Publish to PyPI using twine\<newline>'']\<close>

definition content_python_performance :: string where
  \<open>content_python_performance = concat
    [''# Python Performance Optimization\<newline>'',
     ''\<newline>'',
     ''## Profiling Tools\<newline>'',
     ''- Use cProfile for code profiling\<newline>'',
     ''- Use memory_profiler for memory analysis\<newline>'',
     ''- Use line_profiler for line-by-line analysis\<newline>'',
     ''\<newline>'',
     ''## Common Optimizations\<newline>'',
     ''- Use list comprehensions over loops when appropriate\<newline>'',
     ''- Prefer generators for large datasets\<newline>'',
     ''- Use built-in functions (they\'re optimized in C)\<newline>'',
     ''\<newline>'',
     ''## Data Structures\<newline>'',
     ''- Choose appropriate data structures (set vs list)\<newline>'',
     ''- Use collections module (deque, Counter, defaultdict)\<newline>'',
     ''- Consider numpy for numerical computations\<newline>'',
     ''\<newline>'',
     ''## Algorithm Optimization\<newline>'',
     ''```python\<newline>'',
     ''# Bad: O(n'' @ [CHR 0xC2, CHR 0xB2] @ '')\<newline>'',
     ''for i in list1:\<newline>'',
     ''    if i in list2:  # Linear search each time\<newline>'',
     ''        result.append(i)\<newline>'',
     ''\<newline>'',
     ''# Good: O(n)\<newline>'',
     ''set2 = set(list2)  # Convert to set once\<newline>'',
     ''for i in list1:\<newline>'',
     ''    if i in set2:  # Constant time lookup\<newline>'',
     ''        result.append(i)\<newline>'',
     ''```\<newline>'',
     ''\<newline>'',
     ''## Memory Management\<newline>'',
     ''- Use __slots__ for classes with many instances\<newline>'',
     ''- Delete large objects when done\<newline>'',
     ''- Use weak references to break circular references\<newline>'']\<close>

definition content_python_async :: string where
  \<open>content_python_async = concat
    [''# Python Asynchronous Programming\<newline>'',
     ''\<newline>'',
     ''## asyncio Basics\<newline>'',
     ''- Use async/await for asynchronous operations\<newline>'',
     ''- Run async functions with asyncio.run()\<newline>'',
     ''- Use async context managers and iterators\<newline>'',
     ''\<newline>'',
     ''## Common Patterns\<newline>'',
     ''```python\<newline>'',
     ''import asyncio\<newline>'',
     ''import aiohttp\<newline>'',
     ''\<newline>'',
     ''async def fetch_data(url):\<newline>'',
     ''    async with aiohttp.ClientSession() as session:\<newline>'',
     ''        async with session.get(url) as response:\<newline>'',
     ''            return await response.text()\<newline>'',
     ''\<newline>'',
     ''async def main():\<newline>'',
     ''    urls = ["http://example1.com", "http://example2.com"]\<newline>'',
     ''    tasks = [fetch_data(url) for url in urls]\<newline>'',
     ''    results = await asyncio.gather(*tasks)\<newline>'',
     ''    return results\<newline>'',
     ''```\<newline>'',
     ''\<newline>'',
     ''## Best Practices\<newline>'',
     ''- Don\'t mix blocking and non-blocking code\<newline>'',
     ''- Use asyncio.gather() for concurrent operations\<newline>'',
     ''- Handle exceptions properly in async code\<newline>'',
     ''- Use async libraries (aiohttp, asyncpg) for I/O\<newline>'',
     ''\<newline>'',
     ''## Performance Considerations\<newline>'',
     ''- Async is best for I/O-bound operations\<newline>'',
     ''- Use thread pools for CPU-bound work\<newline>'',
     ''- Monitor event loop performance\<newline>'',
     ''- Avoid blocking operations in async functions\<newline>'']\<close>

definition content_javascript_code_styling :: string where
  \<open>content_javascript_code_styling = concat
    [''# JavaScript Code Styling Guidelines\<newline>'',
     ''\<newline>'',
     ''## ESLint and Prettier\<newline>'',
     ''- Use ESLint for code linting\<newline>'',
     ''- Use Prettier for code formatting\<newline>'',
     ''- Configure both in your project\<newline>'',
     ''\<newline>'',
     ''## Variable Declarations\<newline>'',
     ''- Use `const` by default\<newline>'',
     ''- Use `let` when reassignment is needed\<newline>'',
     ''- Avoid `var` completely\<newline>'',
     ''\<newline>'',
     ''## Function Declarations\<newline>'',
     ''```javascript\<newline>'',
     ''// Prefer arrow functions for short functions\<newline>'',
     ''const add = (a, b) => a + b;\<newline>'',
     ''\<newline>'',
     ''// Use function declarations for named functions\<newline>'',
     ''function calculateTotal(items) {\<newline>'',
     ''    return items.reduce((sum, item) => sum + item.price, 0);\<newline>'',
     ''}\<newline>'',
     ''```\<newline>'',
     ''\<newline>'',
     ''## Object and Array Destructuring\<newline>'',
     ''```javascript\<newline>'',
     ''// Object destructuring\<newline>'',
     ''const { name, age } = user;\<newline>'',
     ''\<newline>'',
     ''// Array destructuring\<newline>'',
     ''const [first, second] = items;\<newline>'',
     ''\<newline>'',
     ''// Function parameters\<newline>'',
     ''function greet({ name, age = 0 }) {\<newline>'',
     ''    return `Hello ${name}, you are ${age} years old`;\<newline>'',
     ''}\<newline>'',
     ''```\<newline>'',
     ''\<newline>'',
     ''## Modern Syntax\<newline>'',
     ''- Use template literals for string interpolation\<newline>'',
     ''- Use optional chaining (?.) and nullish coalescing (??)\<newline>'',
     ''- Prefer async/await over Promise chains\<newline>'']\<close>

definition content_javascript_testing :: string where
  \<open>content_javascript_testing = concat
    [''# JavaScript Testing Best Practices\<newline>'',
     ''\<newline>'',
     ''## Testing Framework\<newline>'',
     ''- Use Jest for unit and integration testing\<newline>'',
     ''- Use Testing Library for React component testing\<newline>'',
     ''- Use Cypress or Playwright for E2E testing\<newline>'',
     ''\<newline>'',
     ''## Test Structure\<newline>'',
     ''```javascript\<newline>'',
     ''describe(\'Calculator\', () => {\<newline>'',
     ''    test(\'should add two numbers correctly\', () => {\<newline>'',
     ''        // Arrange\<newline>'',
     ''        const a = 5;\<newline>'',
     ''        const b = 3;\<newline>'',
     ''        \<newline>'',
     ''        // Act\<newline>'',
     ''        const result = add(a, b);\<newline>'',
     ''        \<newline>'',
     ''        // Assert\<newline>'',
     ''        expect(result).toBe(8);\<newline>'',
     ''    });\<newline>'',
     ''});\<newline>'',
     ''```\<newline>'',
     ''\<newline>'',
     ''## Mocking and Spies\<newline>'',
     ''```javascript\<newline>'',
     ''// Mock functions\<newline>'',
     ''const mockFn = jest.fn();\<newline>'',
     ''mockFn.mockReturnValue(\'mocked value\');\<newline>'',
     ''\<newline>'',
     ''// Spy on methods\<newline>'',
     ''const spy = jest.spyOn(object, \'method\');\<newline>'',
     ''expect(spy).toHaveBeenCalledWith(expectedArgs);\<newline>'',
     ''```\<newline>'',
     ''\<newline>'',
     ''## Async Testing\<newline>'',
     ''```javascript\<newline>'',
     ''test(\'async function test\', async () => {\<newline>'',
     ''    const result = await fetchData();\<newline>'',
     ''    expect(result).toBeDefined();\<newline>'',
     ''});\<newline>'',
     ''\<newline>'',
     ''test(\'promise rejection\', async () => {\<newline>'',
     ''    await expect(failingFunction()).rejects.toThrow(\'Error message\');\<newline>'',
     ''});\<newline>'',
     ''```\<newline>'',
     ''\<newline>'',
     ''## Best Practices\<newline>'',
     ''- Write tests before or alongside code (TDD)\<newline>'',
     ''- Test behavior, not implementation\<newline>'',
     ''- Keep tests simple and focused\<newline>'',
     ''- Use descriptive test names\<newline>'']\<close>

definition content_react_components :: string where
  \<open>content_react_components = concat
    [''# React Components Best Practices\<newline>'',
     ''\<newline>'',
     ''## Functional Components\<newline>'',
     ''- Always use functional components over class components\<newline>'',
     ''- Keep components small and focused\<newline>'',
     ''- Use TypeScript for better type safety\<newline>'',
     ''\<newline>'',
     ''## Component Structure\<newline>'',
     ''```jsx\<newline>'',
     ''import React from \'react\';\<newline>'',
     ''import PropTypes from \'prop-types\';\<newline>'',
     ''\<newline>'',
     ''const UserCard = ({ user, onEdit, className = '' @ [CHR 0x27, CHR 0x27] @ '' }) => {\<newline>'',
     ''    return (\<newline>'',
     ''        <div className={`user-card ${className}`}>\<newline>'',
     ''            <h3>{user.name}</h3>\<newline>'',
     ''            <p>{user.email}</p>\<newline>'',
     ''            <button onClick={() => onEdit(user.id)}>\<newline>'',
     ''                Edit User\<newline>'',
     ''            </button>\<newline>'',
     ''        </div>\<newline>'',
     ''    );\<newline>'',
     ''};\<newline>'',
     ''\<newline>'',
     ''UserCard.propTypes = {\<newline>'',
     ''    user: PropTypes.shape({\<newline>'',
     ''        id: PropTypes.number.isRequired,\<newline>'',
     ''        name: PropTypes.string.isRequired,\<newline>'',
     ''        email: PropTypes.string.isRequired,\<newline>'',
     ''    }).isRequired,\<newline>'',
     ''    onEdit: PropTypes.func.isRequired,\<newline>'',
     ''    className: PropTypes.string,\<newline>'',
     ''};\<newline>'',
     ''\<newline>'',
     ''export default UserCard;\<newline>'',
     ''```\<newline>'',
     ''\<newline>'',
     ''## Component Organization\<newline>'',
     ''- One component per file\<newline>'',
     ''- Use index.js files for cleaner imports\<newline>'',
     ''- Group related components in folders\<newline>'',
     ''- Separate presentation and container components\<newline>'']\<close>

definition content_react_hooks :: string where
  \<open>content_react_hooks = concat
    [''# React Hooks Guidelines\<newline>'',
     ''\<newline>'',
     ''## Built-in Hooks\<newline>'',
     ''```jsx\<newline>'',
     ''import React, { useState, useEffect, useMemo, useCallback } from \'react\';\<newline>'',
     ''\<newline>'',
     ''const UserList = ({ users, onUserSelect }) => {\<newline>'',
     ''    const [filter, setFilter] = useState('' @ [CHR 0x27, CHR 0x27] @ '');\<newline>'',
     ''    const [loading, setLoading] = useState(false);\<newline>'',
     ''    \<newline>'',
     ''    // Memoize expensive calculations\<newline>'',
     ''    const filteredUsers = useMemo(() => {\<newline>'',
     ''        return users.filter(user => \<newline>'',
     ''            user.name.toLowerCase().includes(filter.toLowerCase())\<newline>'',
     ''        );\<newline>'',
     ''    }, [users, filter]);\<newline>'',
     ''    \<newline>'',
     ''    // Memoize callback functions\<newline>'',
     ''    const handleUserClick = useCallback((user) => {\<newline>'',
     ''        onUserSelect(user);\<newline>'',
     ''    }, [onUserSelect]);\<newline>'',
     ''    \<newline>'',
     ''    useEffect(() => {\<newline>'',
     ''        // Side effects here\<newline>'',
     ''        setLoading(true);\<newline>'',
     ''        // Cleanup function\<newline>'',
     ''        return () => {\<newline>'',
     ''            setLoading(false);\<newline>'',
     ''        };\<newline>'',
     ''    }, []);\<newline>'',
     ''    \<newline>'',
     ''    return (\<newline>'',
     ''        <div>\<newline>'',
     ''            <input \<newline>'',
     ''                value={filter} \<newline>'',
     ''                onChange={(e) => setFilter(e.target.value)} \<newline>'',
     ''            />\<newline>'',
     ''            {filteredUsers.map(user => (\<newline>'',
     ''                <UserCard \<newline>'',
     ''                    key={user.id} \<newline>'',
     ''                    user={user} \<newline>'',
     ''                    onClick={handleUserClick}\<newline>'',
     ''                />\<newline>'',
     ''            ))}\<newline>'',
     ''        </div>\<newline>'',
     ''    );\<newline>'',
     ''};\<newline>'',
     ''```\<newline>'',
     ''\<newline>'',
     ''## Custom Hooks\<newline>'',
     ''- Extract reusable logic into custom hooks\<newline>'',
     ''- Start custom hook names with \'use\'\<newline>'',
     ''- Return objects for multiple values\<newline>'']\<close>

definition spec_golang :: language_spec where
  \<open>spec_golang =
    \<lparr>topics = [''code-styling'', ''error-handling'', ''testing'', ''concurrency'', ''performance''],
     content =
       [(''code-styling'', content_golang_code_styling),
        (''error-handling'', content_golang_error_handling),
        (''testing'', content_golang_testing),
        (''concurrency'', content_golang_concurrency),
        (''performance'', content_golang_performance)]\<rparr>\<close>

definition spec_python :: language_spec where
  \<open>spec_python =
    \<lparr>topics = [''code-styling'', ''testing'', ''packaging'', ''performance'', ''async''],
     content =
       [(''code-styling'', content_python_code_styling),
        (''testing'', content_python_testing),
        (''packaging'', content_python_packaging),
        (''performance'', content_python_performance),
        (''async'', content_python_async)]\<rparr>\<close>

definition spec_javascript :: language_spec where
  \<open>spec_javascript =
    \<lparr>topics = [''code-styling'', ''testing'', ''async'', ''modules'', ''performance''],
     content =
       [(''code-styling'', content_javascript_code_styling),
        (''testing'', content_javascript_testing)]\<rparr>\<close>

definition spec_react :: language_spec where
  \<open>spec_react =
    \<lparr>topics = [''components'', ''hooks'', ''state-management'', ''performance'', ''testing''],
     content =
       [(''components'', content_react_components),
        (''hooks'', content_react_hooks)]\<rparr>\<close>

definition LANGUAGE_CONTENT :: \<open>(string \<times> language_spec) list\<close> where
  \<open>LANGUAGE_CONTENT =
    [(''golang'', spec_golang),
     (''python'', spec_python),
     (''javascript'', spec_javascript),
     (''react'', spec_react)]\<close>

definition DEVELOPERS :: \<open>string list\<close> where
  \<open>DEVELOPERS =
    [''ghonDou'', ''sarahLee'', ''alexChen'', ''mariaSilva'', ''johnSmith'', ''linaWang'', ''davidJones'', ''annaKowalski'', ''rajPatel'', ''emmaWhite'']\<close>

section \<open>Content lookup\<close>

text \<open>
  The f-string returned by \<open>get_content_for_topic\<close> when no catalogued body is found.
\<close>

definition fallback_template :: \<open>(string \<Rightarrow> string) \<Rightarrow> string \<Rightarrow> string \<Rightarrow> string\<close> where
  \<open>fallback_template unicode_title language topic = concat
    [''# '' @ title unicode_title language @ '' '' @ title unicode_title (replace_chr (CHR ''-'') (CHR '' '') topic) @ '' Guidelines\<newline>'',
     ''\<newline>'',
     ''## Overview\<newline>'',
     ''This document contains best practices and guidelines for '' @ replace_chr (CHR ''-'') (CHR '' '') topic @ '' in '' @ title unicode_title language @ ''.\<newline>'',
     ''\<newline>'',
     ''## Key Principles\<newline>'',
     ''1. Write clean, readable code\<newline>'',
     ''2. Follow established conventions\<newline>'',
     ''3. Test your code thoroughly\<newline>'',
     ''4. Document important decisions\<newline>'',
     ''5. Keep learning and improving\<newline>'',
     ''\<newline>'',
     ''## Best Practices\<newline>'',
     ''- Follow the community standards for '' @ language @ ''\<newline>'',
     ''- Use appropriate tools and frameworks\<newline>'',
     ''- Write comprehensive tests\<newline>'',
     ''- Document your code properly\<newline>'',
     ''- Review code regularly\<newline>'',
     ''\<newline>'',
     ''## Resources\<newline>'',
     ''- Official '' @ language @ '' documentation\<newline>'',
     ''- Community style guides\<newline>'',
     ''- Popular frameworks and libraries\<newline>'',
     ''- Testing tools and practices\<newline>'',
     ''\<newline>'',
     ''## Common Pitfalls\<newline>'',
     ''- Not following established patterns\<newline>'',
     ''- Ignoring performance implications\<newline>'',
     ''- Insufficient testing\<newline>'',
     ''- Poor error handling\<newline>'',
     ''- Lack of documentation\<newline>'',
     ''\<newline>'',
     ''---\<newline>'',
     ''*This is a template document. Please customize with specific '' @ language @ '' '' @ topic @ '' guidelines.*\<newline>'']\<close>

text \<open>
  \<open>get_content_for_topic(language, topic)\<close>. The condition
  \<open>language in LANGUAGE_CONTENT and topic in LANGUAGE_CONTENT[language]["content"]\<close>
  evaluates its second operand only when the first holds; each subscript may raise.
\<close>

definition get_content_for_topic ::
  \<open>(string \<Rightarrow> string) \<Rightarrow> string \<Rightarrow> string \<Rightarrow> error + string\<close> where
  \<open>get_content_for_topic unicode_title language topic =
     (case (if dict_contains LANGUAGE_CONTENT language
            then (case getitem LANGUAGE_CONTENT language of
                    Inl e \<Rightarrow> Inl e
                  | Inr spec \<Rightarrow> Inr (dict_contains (content spec) topic))
            else Inr False) of
        Inl e \<Rightarrow> Inl e
      | Inr True \<Rightarrow>
          (case getitem LANGUAGE_CONTENT language of
             Inl e \<Rightarrow> Inl e
           | Inr spec \<Rightarrow> getitem (content spec) topic)
      | Inr False \<Rightarrow> Inr (fallback_template unicode_title language topic))\<close>

text \<open>
  The catalogued body of a (language, topic) pair, if the catalog has one: the pair is
  catalogued when the language is a key of \<open>LANGUAGE_CONTENT\<close> and the topic is a key of
  that language's \<open>"content"\<close> dictionary.
\<close>

definition catalogued :: \<open>string \<Rightarrow> string \<Rightarrow> string option\<close> where
  \<open>catalogued language topic =
     (case map_of LANGUAGE_CONTENT language of
        None \<Rightarrow> None
      | Some spec \<Rightarrow> map_of (content spec) topic)\<close>

section \<open>Markdown lines\<close>

text \<open>
  The lines of a document are its pieces between line breaks; a Markdown (ATX) heading is
  a line that starts with \<open>#\<close>, every other line is explanatory text.
\<close>

definition str_lines :: \<open>string \<Rightarrow> string list\<close> where
  \<open>str_lines s = split_chr (CHR ''\<newline>'') s\<close>

definition is_heading :: \<open>string \<Rightarrow> bool\<close> where
  \<open>is_heading l = prefix ''#'' l\<close>

definition heading_lines :: \<open>string \<Rightarrow> string list\<close> where
  \<open>heading_lines body = filter is_heading (str_lines body)\<close>

definition explanatory_lines :: \<open>string \<Rightarrow> string list\<close> where
  \<open>explanatory_lines body = filter (\<lambda>l. \<not> is_heading l) (str_lines body)\<close>

section \<open>The world: random generator and file system\<close>

text \<open>
  The process-wide generator of module \<open>random\<close> is a tape of naturals and a read
  position; the file system is the set of existing directories and a map from
  (directory, file name) to file contents, \<open>Path(directory_name) / filename\<close> being the
  pair. Console output is not modelled.
\<close>

record state =
  rng_tape :: \<open>nat \<Rightarrow> nat\<close>
  rng_pos :: nat
  fs_dirs :: \<open>string set\<close>
  fs_files :: \<open>string \<times> string \<Rightarrow> string option\<close>

text \<open>
  \<open>Random._randbelow(n)\<close>, which CPython defines for \<open>n > 0\<close>, returns some \<open>r\<close> with
  \<open>0 \<le> r < n\<close>: here the next tape entry reduced modulo \<open>n\<close>, so that every such \<open>r\<close> is
  the outcome on some tape.
\<close>

definition randbelow :: \<open>nat \<Rightarrow> state \<Rightarrow> nat \<times> state\<close> where
  \<open>randbelow n st = (rng_tape st (rng_pos st) mod n, st\<lparr>rng_pos := Suc (rng_pos st)\<rparr>)\<close>

text \<open>\<open>random.randint(a, b)\<close> is \<open>randrange(a, b + 1)\<close>, which raises \<open>ValueError\<close> on an
  empty range.\<close>

definition randint :: \<open>int \<Rightarrow> int \<Rightarrow> state \<Rightarrow> error + (int \<times> state)\<close> where
  \<open>randint a b st =
     (let width = b + 1 - a in
      if 0 < width
      then (let (r, st') = randbelow (nat width) st in Inr (a + int r, st'))
      else Inl ValueError)\<close>

text \<open>\<open>random.choice(seq)\<close> raises \<open>IndexError\<close> on an empty sequence.\<close>

definition choice :: \<open>'a list \<Rightarrow> state \<Rightarrow> error + ('a \<times> state)\<close> where
  \<open>choice seq st =
     (if seq = [] then Inl IndexError
      else (let (i, st') = randbelow (length seq) st in Inr (seq ! i, st')))\<close>

text \<open>
  \<open>random.sample(population, k)\<close> for a population of at most 21 elements, where CPython
  copies the population into \<open>pool\<close> and runs
  \<^verbatim>\<open>for i in range(k): j = randbelow(n - i); result[i] = pool[j]; pool[j] = pool[n - i - 1]\<close>
  The state of the loop is \<open>(pool, result, st)\<close>; \<open>result\<close> is filled from the left.
\<close>

definition sample_step :: \<open>nat \<Rightarrow> nat \<Rightarrow> 'a list \<times> 'a list \<times> state \<Rightarrow> 'a list \<times> 'a list \<times> state\<close> where
  \<open>sample_step n i s =
     (case s of (pool, result, st) \<Rightarrow>
        (let (j, st') = randbelow (n - i) st
         in (pool[j := pool ! (n - i - 1)], result @ [pool ! j], st')))\<close>

definition sample :: \<open>'a list \<Rightarrow> int \<Rightarrow> state \<Rightarrow> error + ('a list \<times> state)\<close> where
  \<open>sample population k st =
     (let n = length population in
      if \<not> (0 \<le> k \<and> k \<le> int n) then Inl ValueError
      else (case fold (sample_step n) [0..<nat k] (population, [], st) of
              (pool, result, st') \<Rightarrow> Inr (result, st')))\<close>

text \<open>\<open>open(filepath, 'w', encoding='utf-8')\<close> and \<open>f.write(content)\<close>: the file is created
  or replaced; opening fails when the directory does not exist.\<close>

definition write_file :: \<open>string \<Rightarrow> string \<Rightarrow> string \<Rightarrow> state \<Rightarrow> error + state\<close> where
  \<open>write_file directory_name filename body st =
     (if directory_name \<in> fs_dirs st
      then Inr (st\<lparr>fs_files := (fs_files st)((directory_name, filename) \<mapsto> body)\<rparr>)
      else Inl (FileNotFoundError (directory_name @ ''/'' @ filename)))\<close>

section \<open>The file populator\<close>

text \<open>\<open>available_topics = LANGUAGE_CONTENT[language]["topics"]\<close>: the declared topics of a
  language.\<close>

definition available_topics :: \<open>string \<Rightarrow> error + string list\<close> where
  \<open>available_topics language =
     (case getitem LANGUAGE_CONTENT language of
        Inl e \<Rightarrow> Inl e
      | Inr spec \<Rightarrow> Inr (topics spec))\<close>

text \<open>The f-string \<open>f"{developer}.{language}.{topic}.md"\<close>.\<close>

definition filename_of :: \<open>string \<Rightarrow> string \<Rightarrow> string \<Rightarrow> string\<close> where
  \<open>filename_of developer language topic = developer @ ''.'' @ language @ ''.'' @ topic @ ''.md''\<close>

text \<open>The body of the loop over the selected developers in
  \<open>create_files_for_directory\<close>: it returns the name of the file it wrote.\<close>

definition create_file ::
  \<open>(string \<Rightarrow> string) \<Rightarrow> string \<Rightarrow> string \<Rightarrow> state \<Rightarrow> error + (string \<times> state)\<close> where
  \<open>create_file unicode_title directory_name developer st =
     (case choice (map fst LANGUAGE_CONTENT) st of
        Inl e \<Rightarrow> Inl e
      | Inr (language, st1) \<Rightarrow>
     (case available_topics language of
        Inl e \<Rightarrow> Inl e
      | Inr topic_list \<Rightarrow>
     (case choice topic_list st1 of
        Inl e \<Rightarrow> Inl e
      | Inr (topic, st2) \<Rightarrow>
     (let filename = filename_of developer language topic in
      case get_content_for_topic unicode_title language topic of
        Inl e \<Rightarrow> Inl e
      | Inr body \<Rightarrow>
     (case write_file directory_name filename body st2 of
        Inl e \<Rightarrow> Inl e
      | Inr st3 \<Rightarrow> Inr (filename, st3))))))\<close>

fun create_loop ::
  \<open>(string \<Rightarrow> string) \<Rightarrow> string \<Rightarrow> string list \<Rightarrow> string list \<Rightarrow> state
     \<Rightarrow> error + (string list \<times> state)\<close> where
  \<open>create_loop unicode_title directory_name [] files_created st = Inr (files_created, st)\<close>
| \<open>create_loop unicode_title directory_name (developer # rest) files_created st =
     (case create_file unicode_title directory_name developer st of
        Inl e \<Rightarrow> Inl e
      | Inr (filename, st') \<Rightarrow> create_loop unicode_title directory_name rest (files_created @ [filename]) st')\<close>

definition create_files_for_directory ::
  \<open>(string \<Rightarrow> string) \<Rightarrow> string \<Rightarrow> state \<Rightarrow> error + (string list \<times> state)\<close> where
  \<open>create_files_for_directory unicode_title directory_name st =
     (case randint 3 6 st of
        Inl e \<Rightarrow> Inl e
      | Inr (num_files, st1) \<Rightarrow>
     (case sample DEVELOPERS (min num_files (int (length DEVELOPERS))) st1 of
        Inl e \<Rightarrow> Inl e
      | Inr (selected_developers, st2) \<Rightarrow>
          create_loop unicode_title directory_name selected_developers [] st2))\<close>

text \<open>A topic is declared for a language when the language is a key of the catalog and
  the topic is in that language's \<open>"topics"\<close> list.\<close>

definition declared :: \<open>string \<Rightarrow> string \<Rightarrow> bool\<close> where
  \<open>declared language topic =
     (case map_of LANGUAGE_CONTENT language of
        None \<Rightarrow> False
      | Some spec \<Rightarrow> topic \<in> set (topics spec))\<close>

text \<open>The developer component of a file name: what precedes its first dot.\<close>

definition developer_of :: \<open>string \<Rightarrow> string\<close> where
  \<open>developer_of filename = hd (split_chr (CHR ''.'') filename)\<close>

text \<open>A concrete world for running the populator: the directory \<open>eyes\<close> exists and is
  empty, and the generator yields 0 four times (three files; the developers at pool
  positions 0, 0, 0) and 2 from then on (language index 2, topic index 2).\<close>

definition example_world :: state where
  \<open>example_world =
     \<lparr>rng_tape = (\<lambda>i. if i < 4 then 0 else 2), rng_pos = 0,
      fs_dirs = {''eyes''}, fs_files = Map.empty\<rparr>\<close>

section \<open>Properties of the content lookup\<close>


lemma get_content_for_topic_eq:
  "get_content_for_topic unicode_title language topic =
     Inr (case catalogued language topic of
            Some body \<Rightarrow> body
          | None \<Rightarrow> fallback_template unicode_title language topic)"
proof (cases "map_of LANGUAGE_CONTENT language")
  case None
  then have "\<not> dict_contains LANGUAGE_CONTENT language"
    by (simp add: dict_contains_def map_of_eq_None_iff)
  with None show ?thesis
    by (simp add: get_content_for_topic_def catalogued_def)
next
  case (Some spec)
  then have in_lang: "dict_contains LANGUAGE_CONTENT language"
    by (metis dict_contains_def map_of_eq_None_iff option.distinct(1) set_map)
  from Some have get: "getitem LANGUAGE_CONTENT language = Inr spec"
    by (simp add: getitem_def)
  show ?thesis
  proof (cases "map_of (content spec) topic")
    case None
    then have "\<not> dict_contains (content spec) topic"
      by (simp add: dict_contains_def map_of_eq_None_iff)
    with None Some in_lang get show ?thesis
      by (simp add: get_content_for_topic_def catalogued_def)
  next
    case (Some body)
    then have "dict_contains (content spec) topic"
      by (metis dict_contains_def map_of_eq_None_iff option.distinct(1) set_map)
    with Some \<open>map_of LANGUAGE_CONTENT language = Some spec\<close> in_lang get show ?thesis
      by (simp add: get_content_for_topic_def catalogued_def getitem_def)
  qed
qed

lemma concat_suffix_last: "ls \<noteq> [] \<Longrightarrow> last ls = l \<Longrightarrow> suffix l (concat ls)"
  by (metis append_butlast_last_id concat.simps(2) concat_append suffixI append_Nil2 concat.simps(1))

lemma concat_sublist_nth: "i < length ls \<Longrightarrow> ls ! i = l \<Longrightarrow> sublist l (concat ls)"
  by (metis concat.simps(2) concat_append id_take_nth_drop sublist_appendI)

lemma fallback_note:
  "suffix (''*This is a template document. Please customize with specific '' @ language @ '' ''
           @ topic @ '' guidelines.*\<newline>'') (fallback_template unicode_title language topic)"
  unfolding fallback_template_def by (rule concat_suffix_last) simp_all

lemma fallback_heading:
  "prefix (''# '' @ title unicode_title language @ '' '' @ title unicode_title (replace_chr (CHR ''-'') (CHR '' '') topic)
           @ '' Guidelines\<newline>'') (fallback_template unicode_title language topic)"
  unfolding fallback_template_def by (simp del: append.simps append_assoc)

lemma fallback_overview:
  "sublist (''This document contains best practices and guidelines for ''
            @ replace_chr (CHR ''-'') (CHR '' '') topic @ '' in '' @ title unicode_title language @ ''.\<newline>'')
     (fallback_template unicode_title language topic)"
  unfolding fallback_template_def by (rule concat_sublist_nth[where i=3]) simp_all

text \<open>No catalogued body contains the words \<open>template document\<close> of the fallback note.\<close>

lemma content_golang_code_styling_unmarked: \<open>\<not> sublist ''template document'' content_golang_code_styling\<close>
  unfolding content_golang_code_styling_def by (simp add: sublist_Cons_right)

lemma content_golang_error_handling_unmarked: \<open>\<not> sublist ''template document'' content_golang_error_handling\<close>
  unfolding content_golang_error_handling_def by (simp add: sublist_Cons_right)

lemma content_golang_testing_unmarked: \<open>\<not> sublist ''template document'' content_golang_testing\<close>
  unfolding content_golang_testing_def by (simp add: sublist_Cons_right)

lemma content_golang_concurrency_unmarked: \<open>\<not> sublist ''template document'' content_golang_concurrency\<close>
  unfolding content_golang_concurrency_def by (simp add: sublist_Cons_right)

lemma content_golang_performance_unmarked: \<open>\<not> sublist ''template document'' content_golang_performance\<close>
  unfolding content_golang_performance_def by (simp add: sublist_Cons_right)

lemma content_python_code_styling_unmarked: \<open>\<not> sublist ''template document'' content_python_code_styling\<close>
  unfolding content_python_code_styling_def by (simp add: sublist_Cons_right)

lemma content_python_testing_unmarked: \<open>\<not> sublist ''template document'' content_python_testing\<close>
  unfolding content_python_testing_def by (simp add: sublist_Cons_right)

lemma content_python_packaging_unmarked: \<open>\<not> sublist ''template document'' content_python_packaging\<close>
  unfolding content_python_packaging_def by (simp add: sublist_Cons_right)

lemma content_python_performance_unmarked: \<open>\<not> sublist ''template document'' content_python_performance\<close>
  unfolding content_python_performance_def by (simp add: sublist_Cons_right)

lemma content_python_async_unmarked: \<open>\<not> sublist ''template document'' content_python_async\<close>
  unfolding content_python_async_def by (simp add: sublist_Cons_right)

lemma content_javascript_code_styling_unmarked: \<open>\<not> sublist ''template document'' content_javascript_code_styling\<close>
  unfolding content_javascript_code_styling_def by (simp add: sublist_Cons_right)

lemma content_javascript_testing_unmarked: \<open>\<not> sublist ''template document'' content_javascript_testing\<close>
  unfolding content_javascript_testing_def by (simp add: sublist_Cons_right)

lemma content_react_components_unmarked: \<open>\<not> sublist ''template document'' content_react_components\<close>
  unfolding content_react_components_def by (simp add: sublist_Cons_right)

lemma content_react_hooks_unmarked: \<open>\<not> sublist ''template document'' content_react_hooks\<close>
  unfolding content_react_hooks_def by (simp add: sublist_Cons_right)

lemma catalogued_unmarked:
  assumes "catalogued language topic = Some body"
  shows "\<not> sublist ''template document'' body"
proof -
  from assms have "body \<in> {content_golang_code_styling, content_golang_error_handling,
      content_golang_testing, content_golang_concurrency, content_golang_performance,
      content_python_code_styling, content_python_testing, content_python_packaging,
      content_python_performance, content_python_async, content_javascript_code_styling,
      content_javascript_testing, content_react_components, content_react_hooks}"
    by (auto simp: catalogued_def LANGUAGE_CONTENT_def spec_golang_def spec_python_def
        spec_javascript_def spec_react_def split: if_splits)
  then show ?thesis
    using content_golang_code_styling_unmarked content_golang_error_handling_unmarked
      content_golang_testing_unmarked content_golang_concurrency_unmarked
      content_golang_performance_unmarked content_python_code_styling_unmarked
      content_python_testing_unmarked content_python_packaging_unmarked
      content_python_performance_unmarked content_python_async_unmarked
      content_javascript_code_styling_unmarked content_javascript_testing_unmarked
      content_react_components_unmarked content_react_hooks_unmarked
    by auto
qed

lemma golang_code_styling_heading:
  "prefix ''# Golang Code Styling Guidelines'' content_golang_code_styling"
  unfolding content_golang_code_styling_def by simp

lemma catalogued_golang_code_styling:
  "catalogued ''golang'' ''code-styling'' = Some content_golang_code_styling"
  by (simp add: catalogued_def LANGUAGE_CONTENT_def spec_golang_def)

lemma catalogued_python_packaging:
  "catalogued ''python'' ''packaging'' = Some content_python_packaging"
  by (simp add: catalogued_def LANGUAGE_CONTENT_def spec_python_def)

lemma catalogued_unknown_language:
  "language \<notin> set [''golang'', ''python'', ''javascript'', ''react''] \<Longrightarrow> catalogued language topic = None"
  by (simp add: catalogued_def LANGUAGE_CONTENT_def)

lemma catalogued_golang_nonexistent: "catalogued ''golang'' ''nonexistent-topic'' = None"
  by (simp add: catalogued_def LANGUAGE_CONTENT_def spec_golang_def)

lemma title_golang: "title unicode_title ''golang'' = ''Golang''"
  by code_simp

lemma title_nonexistent_topic:
  "title unicode_title (replace_chr (CHR ''-'') (CHR '' '') ''nonexistent-topic'') = ''Nonexistent Topic''"
  by code_simp

lemma title_mixed_language: "title unicode_title ''GoLang'' = ''Golang''"
  by code_simp

lemma title_mixed_topic:
  "title unicode_title (replace_chr (CHR ''-'') (CHR '' '') ''ERROR-handling'') = ''Error Handling''"
  by code_simp

lemma fallback_mentions:
  "sublist language (fallback_template unicode_title language topic)"
  "sublist (title unicode_title language) (fallback_template unicode_title language topic)"
  "sublist (title unicode_title (replace_chr (CHR ''-'') (CHR '' '') topic)) (fallback_template unicode_title language topic)"
  "sublist (replace_chr (CHR ''-'') (CHR '' '') topic) (fallback_template unicode_title language topic)"
  "sublist ''template document'' (fallback_template unicode_title language topic)"
proof -
  let ?body = "fallback_template unicode_title language topic"
  let ?T = "title unicode_title (replace_chr (CHR ''-'') (CHR '' '') topic)"
  have tail: "sublist (''*This is a template document. Please customize with specific '' @ language @ '' ''
           @ topic @ '' guidelines.*\<newline>'') ?body"
    using fallback_note by (rule suffix_imp_sublist)
  have head: "sublist (''# '' @ title unicode_title language @ '' '' @ ?T @ '' Guidelines\<newline>'') ?body"
    using fallback_heading by (rule prefix_imp_sublist)
  have "sublist language (''*This is a template document. Please customize with specific '' @ language @ '' ''
           @ topic @ '' guidelines.*\<newline>'')"
    by (rule sublist_appendI)
  then show "sublist language ?body"
    using tail by (rule sublist_order.order_trans)
  have "sublist (title unicode_title language) (''# '' @ title unicode_title language @ '' '' @ ?T @ '' Guidelines\<newline>'')"
    by (rule sublist_appendI)
  then show "sublist (title unicode_title language) ?body"
    using head by (rule sublist_order.order_trans)
  have "sublist ?T ((''# '' @ title unicode_title language @ '' '') @ ?T @ '' Guidelines\<newline>'')"
    by (rule sublist_appendI)
  then have "sublist ?T (''# '' @ title unicode_title language @ '' '' @ ?T @ '' Guidelines\<newline>'')"
    by simp
  then show "sublist ?T ?body"
    using head by (rule sublist_order.order_trans)
  have "sublist (replace_chr (CHR ''-'') (CHR '' '') topic) (''This document contains best practices and guidelines for ''
            @ replace_chr (CHR ''-'') (CHR '' '') topic @ '' in '' @ title unicode_title language @ ''.\<newline>'')"
    by (rule sublist_appendI)
  then show "sublist (replace_chr (CHR ''-'') (CHR '' '') topic) ?body"
    using fallback_overview by (rule sublist_order.order_trans)
  have "sublist ''template document'' (''*This is a '' @ ''template document'' @ ''. Please customize with specific '' @ language @ '' ''
           @ topic @ '' guidelines.*\<newline>'')"
    by (rule sublist_appendI)
  then have "sublist ''template document'' (''*This is a template document. Please customize with specific '' @ language @ '' ''
           @ topic @ '' guidelines.*\<newline>'')"
    by simp
  then show "sublist ''template document'' ?body"
    using tail by (rule sublist_order.order_trans)
qed

section \<open>Properties of the random generator\<close>


lemma randint_3_6:
  "\<exists>n. 3 \<le> n \<and> n \<le> 6 \<and> randint 3 6 st = Inr (n, st\<lparr>rng_pos := Suc (rng_pos st)\<rparr>)"
proof -
  have "rng_tape st (rng_pos st) mod 4 < 4" by simp
  then show ?thesis
    by (simp add: randint_def randbelow_def)
qed

lemma choice_nonempty:
  assumes "seq \<noteq> []"
  shows "\<exists>x. x \<in> set seq \<and> choice seq st = Inr (x, st\<lparr>rng_pos := Suc (rng_pos st)\<rparr>)"
proof -
  from assms have "rng_tape st (rng_pos st) mod length seq < length seq" by simp
  with assms show ?thesis
    by (simp add: choice_def randbelow_def)
qed

lemma take_swap_out:
  assumes "j < m" and "m \<le> length pool"
  shows "add_mset (pool ! j) (mset (take (m - 1) (pool[j := pool ! (m - 1)]))) = mset (take m pool)"
proof -
  from assms have m: "m = Suc (m - 1)" and lt: "m - 1 < length pool" by simp_all
  have tk: "take m pool = take (m - 1) pool @ [pool ! (m - 1)]"
    using lt m by (metis take_Suc_conv_app_nth)
  show ?thesis
  proof (cases "j = m - 1")
    case True
    then show ?thesis using tk by simp
  next
    case False
    with assms have jl: "j < m - 1" by simp
    then have jlen: "j < length (take (m - 1) pool)" using lt by simp
    have "take (m - 1) (pool[j := pool ! (m - 1)]) = (take (m - 1) pool)[j := pool ! (m - 1)]"
      using jl by (simp add: take_update_swap)
    moreover have "(take (m - 1) pool) ! j = pool ! j" using jl by simp
    moreover have "pool ! j \<in># mset (take (m - 1) pool)"
      using jlen \<open>(take (m - 1) pool) ! j = pool ! j\<close> by (metis nth_mem_mset)
    ultimately show ?thesis
      using tk jlen by (simp add: mset_update)
  qed
qed

lemma sample_fold:
  assumes "i \<le> length population"
  shows "\<exists>pool result.
           fold (sample_step (length population)) [0..<i] (population, [], st)
             = (pool, result, st\<lparr>rng_pos := rng_pos st + i\<rparr>)
         \<and> length pool = length population \<and> length result = i
         \<and> mset result + mset (take (length population - i) pool) = mset population"
  using assms
proof (induction i)
  case 0
  then show ?case by simp
next
  case (Suc i)
  then obtain pool result where
    run: "fold (sample_step (length population)) [0..<i] (population, [], st)
            = (pool, result, st\<lparr>rng_pos := rng_pos st + i\<rparr>)"
    and len: "length pool = length population" "length result = i"
    and inv: "mset result + mset (take (length population - i) pool) = mset population"
    by auto
  let ?m = "length population - i"
  let ?j = "rng_tape st (rng_pos st + i) mod ?m"
  from Suc.prems have m: "0 < ?m" "?m \<le> length pool" using len by simp_all
  then have j: "?j < ?m" by simp
  have step: "add_mset (pool ! ?j) (mset (take (?m - 1) (pool[?j := pool ! (?m - 1)]))) = mset (take ?m pool)"
    using j m(2) by (rule take_swap_out)
  have "fold (sample_step (length population)) [0..<Suc i] (population, [], st)
          = (pool[?j := pool ! (?m - 1)], result @ [pool ! ?j], st\<lparr>rng_pos := rng_pos st + Suc i\<rparr>)"
    using run by (simp add: sample_step_def randbelow_def)
  moreover have "mset (result @ [pool ! ?j]) + mset (take (length population - Suc i) (pool[?j := pool ! (?m - 1)]))
                   = mset population"
  proof -
    have "mset (result @ [pool ! ?j]) + mset (take (length population - Suc i) (pool[?j := pool ! (?m - 1)]))
            = mset result + add_mset (pool ! ?j) (mset (take (?m - 1) (pool[?j := pool ! (?m - 1)])))"
      by simp
    also have "\<dots> = mset result + mset (take ?m pool)"
      by (simp only: step)
    finally show ?thesis using inv by simp
  qed
  ultimately show ?case using len by simp
qed

lemma sample_distinct:
  assumes "0 \<le> k" and "k \<le> int (length population)" and "distinct population"
  shows "\<exists>result. sample population k st = Inr (result, st\<lparr>rng_pos := rng_pos st + nat k\<rparr>)
           \<and> length result = nat k \<and> distinct result \<and> set result \<subseteq> set population"
proof -
  from assms have "nat k \<le> length population" by simp
  from sample_fold[OF this, of st] obtain pool result where
    run: "fold (sample_step (length population)) [0..<nat k] (population, [], st)
            = (pool, result, st\<lparr>rng_pos := rng_pos st + nat k\<rparr>)"
    and len: "length result = nat k"
    and inv: "mset result + mset (take (length population - nat k) pool) = mset population"
    by blast
  from inv have sub: "mset result \<subseteq># mset population"
    by (metis mset_subset_eq_add_left)
  have "distinct result"
    unfolding distinct_count_atmost_1
  proof (intro allI)
    fix a
    have "count (mset result) a \<le> count (mset population) a"
      using sub by (rule mset_subset_eq_count)
    moreover have "count (mset population) a \<le> 1"
      using assms(3) by (simp add: distinct_count_atmost_1)
    ultimately have le1: "count (mset result) a \<le> 1" by simp
    show "count (mset result) a = (if a \<in> set result then 1 else 0)"
    proof (cases "a \<in> set result")
      case True
      then have "count (mset result) a \<noteq> 0"
        by (simp add: count_eq_zero_iff)
      with le1 have "count (mset result) a = 1" by arith
      with True show ?thesis by simp
    next
      case False
      then show ?thesis by (simp add: count_eq_zero_iff)
    qed
  qed
  moreover from sub have "set result \<subseteq> set population"
    using set_mset_mono by fastforce
  ultimately show ?thesis using run len assms(1,2)
    by (simp add: sample_def)
qed
section \<open>The lines of the fallback template\<close>

lemma split_chr_line:
  \<open>sep \<notin> set a \<Longrightarrow> split_chr sep (a @ sep # rest) = a # split_chr sep rest\<close>
  by (induction a) auto

lemma split_chr_concat_lines:
  assumes \<open>\<And>l. l \<in> set ls \<Longrightarrow> l \<noteq> [] \<and> last l = sep \<and> sep \<notin> set (butlast l)\<close>
  shows \<open>split_chr sep (concat ls) = map butlast ls @ [[]]\<close>
  using assms
proof (induction ls)
  case Nil
  then show ?case by simp
next
  case (Cons l ls)
  then have l: \<open>l = butlast l @ [sep]\<close> and nosep: \<open>sep \<notin> set (butlast l)\<close>
    by (metis append_butlast_last_id list.set_intros(1))+
  have \<open>concat (l # ls) = butlast l @ sep # concat ls\<close>
    using l by (metis append_Cons append_Nil append_assoc concat.simps(2))
  moreover have \<open>split_chr sep (butlast l @ sep # concat ls) = butlast l # split_chr sep (concat ls)\<close>
    using nosep by (rule split_chr_line)
  ultimately have \<open>split_chr sep (concat (l # ls)) = butlast l # split_chr sep (concat ls)\<close>
    by (simp only:)
  moreover have \<open>split_chr sep (concat ls) = map butlast ls @ [[]]\<close>
    using Cons.prems by (intro Cons.IH) simp
  ultimately show ?case by simp
qed

lemma char_of_upper_range:
  assumes \<open>65 \<le> m\<close> and \<open>m \<le> (122::nat)\<close>
  shows \<open>char_of m \<noteq> CHR ''\<newline>''\<close>
proof
  assume \<open>char_of m = CHR ''\<newline>''\<close>
  then have \<open>(of_char (char_of m) :: nat) = of_char (CHR ''\<newline>'')\<close> by simp
  then have \<open>m mod 256 = 10\<close> by simp
  with assms show False by simp
qed

lemma to_upper_newline: \<open>c \<noteq> CHR ''\<newline>'' \<Longrightarrow> to_upper c \<noteq> CHR ''\<newline>''\<close>
proof (cases \<open>97 \<le> (of_char c :: nat) \<and> (of_char c :: nat) \<le> 122\<close>)
  case True
  then have \<open>65 \<le> (of_char c :: nat) - 32\<close> and \<open>(of_char c :: nat) - 32 \<le> 122\<close>
    by arith+
  then have \<open>char_of ((of_char c :: nat) - 32) \<noteq> CHR ''\<newline>''\<close>
    by (rule char_of_upper_range)
  with True show ?thesis
    by (simp add: to_upper_def Let_def)
next
  case False
  assume \<open>c \<noteq> CHR ''\<newline>''\<close>
  with False show ?thesis
    by (auto simp: to_upper_def Let_def)
qed

lemma to_lower_newline: \<open>c \<noteq> CHR ''\<newline>'' \<Longrightarrow> to_lower c \<noteq> CHR ''\<newline>''\<close>
proof (cases \<open>65 \<le> (of_char c :: nat) \<and> (of_char c :: nat) \<le> 90\<close>)
  case True
  then have \<open>65 \<le> (of_char c :: nat) + 32\<close> and \<open>(of_char c :: nat) + 32 \<le> 122\<close>
    by arith+
  then have \<open>char_of ((of_char c :: nat) + 32) \<noteq> CHR ''\<newline>''\<close>
    by (rule char_of_upper_range)
  with True show ?thesis
    by (simp add: to_lower_def Let_def)
next
  case False
  assume \<open>c \<noteq> CHR ''\<newline>''\<close>
  with False show ?thesis
    by (auto simp: to_lower_def Let_def)
qed

lemma title_from_newline:
  \<open>CHR ''\<newline>'' \<notin> set s \<Longrightarrow> CHR ''\<newline>'' \<notin> set (title_from b s)\<close>
proof (induction s arbitrary: b)
  case Nil
  then show ?case by simp
next
  case (Cons c cs)
  then have c: \<open>c \<noteq> CHR ''\<newline>''\<close> and cs: \<open>CHR ''\<newline>'' \<notin> set cs\<close>
    by auto
  have \<open>(if b then to_lower c else to_upper c) \<noteq> CHR ''\<newline>''\<close>
    using to_upper_newline [OF c] to_lower_newline [OF c] by simp
  moreover have \<open>CHR ''\<newline>'' \<notin> set (title_from (is_cased c) cs)\<close>
    using cs by (rule Cons.IH)
  ultimately show ?case
    by (simp add: neq_commute)
qed

lemma title_newline:
  \<open>list_all is_ascii s \<Longrightarrow> CHR ''\<newline>'' \<notin> set s \<Longrightarrow>
   CHR ''\<newline>'' \<notin> set (title unicode_title s)\<close>
  by (simp add: title_def title_from_newline)

lemma replace_chr_newline:
  \<open>CHR ''\<newline>'' \<notin> set s \<Longrightarrow> CHR ''\<newline>'' \<notin> set (replace_chr (CHR ''-'') (CHR '' '') s)\<close>
  by (auto simp: replace_chr_def)

lemma replace_chr_ascii:
  \<open>list_all is_ascii s \<Longrightarrow> list_all is_ascii (replace_chr (CHR ''-'') (CHR '' '') s)\<close>
  by (induction s) (simp_all add: replace_chr_def is_ascii_def)

lemma fallback_lines:
  assumes \<open>CHR ''\<newline>'' \<notin> set language\<close> and \<open>CHR ''\<newline>'' \<notin> set topic\<close>
    and \<open>CHR ''\<newline>'' \<notin> set (title unicode_title language)\<close>
    and \<open>CHR ''\<newline>'' \<notin> set (title unicode_title (replace_chr (CHR ''-'') (CHR '' '') topic))\<close>
  shows \<open>\<exists>ls. str_lines (fallback_template unicode_title language topic) =
          (''# '' @ title unicode_title language @ '' ''
             @ title unicode_title (replace_chr (CHR ''-'') (CHR '' '') topic) @ '' Guidelines'')
          # [] # ''## Overview''
          # (''This document contains best practices and guidelines for ''
             @ replace_chr (CHR ''-'') (CHR '' '') topic @ '' in ''
             @ title unicode_title language @ ''.'')
          # ls
          @ [''*This is a template document. Please customize with specific '' @ language
             @ '' '' @ topic @ '' guidelines.*'', []]\<close>
proof -
  note nl = assms replace_chr_newline [OF assms(2)]
  show ?thesis
    unfolding str_lines_def fallback_template_def
    by (subst split_chr_concat_lines) (use nl in \<open>auto simp: butlast_append\<close>)
qed

section \<open>Title-casing\<close>

lemma case_tables:
  \<open>\<forall>c. to_upper c = upper_of c \<and> to_lower c = lower_of c \<and> is_cased c = is_letter c\<close>
  by code_simp

lemma title_from_nth:
  \<open>i < length s \<Longrightarrow>
   title_from b s ! i =
     (if (if i = 0 then b else is_cased (s ! (i - 1))) then to_lower (s ! i)
      else to_upper (s ! i))\<close>
proof (induction s arbitrary: b i)
  case Nil
  then show ?case by simp
next
  case (Cons c cs)
  show ?case
  proof (cases i)
    case 0
    then show ?thesis by simp
  next
    case (Suc j)
    with Cons.prems have \<open>j < length cs\<close> by simp
    from Cons.IH [OF this, of \<open>is_cased c\<close>] Suc show ?thesis
      by (cases j) simp_all
  qed
qed

lemma title_from_length: \<open>length (title_from b s) = length s\<close>
  by (induction s arbitrary: b) simp_all

lemma title_ascii_cased: \<open>list_all is_ascii s \<Longrightarrow> title_cased s (title unicode_title s)\<close>
  using case_tables
  by (simp add: title_def title_cased_def title_from_length title_from_nth)

lemma title_ascii_any:
  \<open>list_all is_ascii s \<Longrightarrow> title unicode_title s = title leave_unchanged s\<close>
  by (simp add: title_def)

lemma fallback_template_ascii_any:
  assumes \<open>list_all is_ascii language\<close> and \<open>list_all is_ascii topic\<close>
  shows \<open>fallback_template unicode_title language topic
           = fallback_template leave_unchanged language topic\<close>
  using title_ascii_any [OF assms(1), of unicode_title]
    title_ascii_any [OF replace_chr_ascii [OF assms(2)], of unicode_title]
  by (simp add: fallback_template_def)

section \<open>Properties of the configuration\<close>

lemma catalog_keys:
  \<open>map fst LANGUAGE_CONTENT = [''golang'', ''python'', ''javascript'', ''react'']\<close>
  by (simp add: LANGUAGE_CONTENT_def)

lemma catalog_topics_nonempty:
  \<open>map_of LANGUAGE_CONTENT language = Some spec \<Longrightarrow> topics spec \<noteq> []\<close>
  by (auto simp: LANGUAGE_CONTENT_def spec_golang_def spec_python_def spec_javascript_def
      spec_react_def split: if_splits)

lemma declared_no_dot:
  assumes \<open>declared language topic\<close>
  shows \<open>language \<in> set [''golang'', ''python'', ''javascript'', ''react'']\<close>
    and \<open>CHR ''.'' \<notin> set language\<close> and \<open>CHR ''.'' \<notin> set topic\<close>
  using assms
  by (auto simp: declared_def LANGUAGE_CONTENT_def spec_golang_def spec_python_def
      spec_javascript_def spec_react_def split: if_splits)

lemma developers_distinct: \<open>distinct DEVELOPERS\<close>
  by (simp add: DEVELOPERS_def)

lemma developers_length: \<open>length DEVELOPERS = 10\<close>
  by (simp add: DEVELOPERS_def)

lemma developers_no_dot: \<open>developer \<in> set DEVELOPERS \<Longrightarrow> CHR ''.'' \<notin> set developer\<close>
  by (auto simp: DEVELOPERS_def)

lemma split_chr_whole: \<open>sep \<notin> set a \<Longrightarrow> split_chr sep a = [a]\<close>
  by (induction a) auto

lemma split_filename:
  assumes \<open>CHR ''.'' \<notin> set developer\<close> and \<open>CHR ''.'' \<notin> set language\<close>
    and \<open>CHR ''.'' \<notin> set topic\<close>
  shows \<open>split_chr (CHR ''.'') (filename_of developer language topic)
           = [developer, language, topic, ''md'']\<close>
proof -
  have \<open>split_chr (CHR ''.'') ''md'' = [''md'']\<close>
    by (rule split_chr_whole) simp
  then show ?thesis
    using assms by (simp add: filename_of_def split_chr_line)
qed

section \<open>Properties of the file populator\<close>

lemma create_file_run:
  assumes \<open>directory_name \<in> fs_dirs st\<close>
  shows \<open>\<exists>language topic body.
           declared language topic \<and> get_content_for_topic unicode_title language topic = Inr body \<and>
           create_file unicode_title directory_name developer st =
             Inr (filename_of developer language topic,
                  st\<lparr>rng_pos := Suc (Suc (rng_pos st)),
                     fs_files := (fs_files st)
                       ((directory_name, filename_of developer language topic) \<mapsto> body)\<rparr>)\<close>
proof -
  let ?st1 = \<open>st\<lparr>rng_pos := Suc (rng_pos st)\<rparr>\<close>
  have \<open>map fst LANGUAGE_CONTENT \<noteq> []\<close>
    by (simp add: catalog_keys)
  from choice_nonempty [OF this, of st] obtain language where
    lang: \<open>language \<in> set (map fst LANGUAGE_CONTENT)\<close>
    and c1: \<open>choice (map fst LANGUAGE_CONTENT) st = Inr (language, ?st1)\<close>
    by blast
  from lang obtain spec where spec: \<open>map_of LANGUAGE_CONTENT language = Some spec\<close>
    by (metis map_of_eq_None_iff not_Some_eq set_map)
  then have av: \<open>available_topics language = Inr (topics spec)\<close>
    by (simp add: available_topics_def getitem_def)
  from choice_nonempty [OF catalog_topics_nonempty [OF spec], of ?st1] obtain topic where
    topic: \<open>topic \<in> set (topics spec)\<close>
    and c2: \<open>choice (topics spec) ?st1 = Inr (topic, ?st1\<lparr>rng_pos := Suc (rng_pos ?st1)\<rparr>)\<close>
    by blast
  from spec topic have \<open>declared language topic\<close>
    by (simp add: declared_def)
  moreover obtain body where body: \<open>get_content_for_topic unicode_title language topic = Inr body\<close>
    by (simp add: get_content_for_topic_eq)
  moreover have \<open>create_file unicode_title directory_name developer st =
             Inr (filename_of developer language topic,
                  st\<lparr>rng_pos := Suc (Suc (rng_pos st)),
                     fs_files := (fs_files st)
                       ((directory_name, filename_of developer language topic) \<mapsto> body)\<rparr>)\<close>
    using assms c1 c2 av body by (simp add: create_file_def write_file_def Let_def)
  ultimately show ?thesis by blast
qed

lemma create_loop_run:
  assumes \<open>directory_name \<in> fs_dirs st\<close>
  shows \<open>\<exists>picks. length picks = length developers \<and>
           (\<forall>(language, topic, body) \<in> set picks.
              declared language topic \<and> get_content_for_topic unicode_title language topic = Inr body) \<and>
           create_loop unicode_title directory_name developers files_created st =
             Inr (files_created @
                    map (\<lambda>(developer, language, topic, body).
                           filename_of developer language topic) (zip developers picks),
                  st\<lparr>rng_pos := rng_pos st + 2 * length developers,
                     fs_files := fs_files st ++
                       map_of (rev (map (\<lambda>(developer, language, topic, body).
                          ((directory_name, filename_of developer language topic), body))
                          (zip developers picks)))\<rparr>)\<close>
  using assms
proof (induction developers arbitrary: files_created st)
  case Nil
  then show ?case by simp
next
  case (Cons developer rest)
  from create_file_run [OF Cons.prems, where developer = developer and unicode_title = unicode_title]
  obtain language topic body where
    pick: \<open>declared language topic\<close> \<open>get_content_for_topic unicode_title language topic = Inr body\<close>
    and run: \<open>create_file unicode_title directory_name developer st =
             Inr (filename_of developer language topic,
                  st\<lparr>rng_pos := Suc (Suc (rng_pos st)),
                     fs_files := (fs_files st)
                       ((directory_name, filename_of developer language topic) \<mapsto> body)\<rparr>)\<close>
    by blast
  let ?st1 = \<open>st\<lparr>rng_pos := Suc (Suc (rng_pos st)),
                     fs_files := (fs_files st)
                       ((directory_name, filename_of developer language topic) \<mapsto> body)\<rparr>\<close>
  have \<open>directory_name \<in> fs_dirs ?st1\<close>
    using Cons.prems by simp
  from Cons.IH [OF this, of \<open>files_created @ [filename_of developer language topic]\<close>]
  obtain picks where
    len: \<open>length picks = length rest\<close>
    and ok: \<open>\<forall>(language, topic, body) \<in> set picks.
              declared language topic \<and> get_content_for_topic unicode_title language topic = Inr body\<close>
    and loop: \<open>create_loop unicode_title directory_name rest
                 (files_created @ [filename_of developer language topic]) ?st1 =
             Inr ((files_created @ [filename_of developer language topic]) @
                    map (\<lambda>(developer, language, topic, body).
                           filename_of developer language topic) (zip rest picks),
                  ?st1\<lparr>rng_pos := rng_pos ?st1 + 2 * length rest,
                     fs_files := fs_files ?st1 ++
                       map_of (rev (map (\<lambda>(developer, language, topic, body).
                          ((directory_name, filename_of developer language topic), body))
                          (zip rest picks)))\<rparr>)\<close>
    by blast
  let ?picks = \<open>(language, topic, body) # picks\<close>
  have \<open>length ?picks = length (developer # rest)\<close>
    using len by simp
  moreover have \<open>\<forall>(language, topic, body) \<in> set ?picks.
              declared language topic \<and> get_content_for_topic unicode_title language topic = Inr body\<close>
    using ok pick by simp
  moreover have \<open>create_loop unicode_title directory_name (developer # rest) files_created st =
             Inr (files_created @
                    map (\<lambda>(developer, language, topic, body).
                           filename_of developer language topic) (zip (developer # rest) ?picks),
                  st\<lparr>rng_pos := rng_pos st + 2 * length (developer # rest),
                     fs_files := fs_files st ++
                       map_of (rev (map (\<lambda>(developer, language, topic, body).
                          ((directory_name, filename_of developer language topic), body))
                          (zip (developer # rest) ?picks)))\<rparr>)\<close>
    using run loop by simp
  ultimately show ?case by blast
qed

lemma create_files_for_directory_run:
  assumes \<open>directory_name \<in> fs_dirs st\<close>
  shows \<open>\<exists>selected picks.
           3 \<le> length selected \<and> length selected \<le> 6 \<and> distinct selected \<and>
           set selected \<subseteq> set DEVELOPERS \<and> length picks = length selected \<and>
           (\<forall>(language, topic, body) \<in> set picks.
              declared language topic \<and> get_content_for_topic unicode_title language topic = Inr body) \<and>
           create_files_for_directory unicode_title directory_name st =
             Inr (map (\<lambda>(developer, language, topic, body).
                         filename_of developer language topic) (zip selected picks),
                  st\<lparr>rng_pos := rng_pos st + 1 + 3 * length selected,
                     fs_files := fs_files st ++
                       map_of (rev (map (\<lambda>(developer, language, topic, body).
                          ((directory_name, filename_of developer language topic), body))
                          (zip selected picks)))\<rparr>)\<close>
proof -
  let ?st1 = \<open>st\<lparr>rng_pos := Suc (rng_pos st)\<rparr>\<close>
  from randint_3_6 [of st] obtain num_files where
    n: \<open>3 \<le> num_files\<close> \<open>num_files \<le> 6\<close>
    and r: \<open>randint 3 6 st = Inr (num_files, ?st1)\<close>
    by blast
  have k: \<open>min num_files (int (length DEVELOPERS)) = num_files\<close>
    using n by (simp add: developers_length)
  have \<open>0 \<le> num_files\<close> \<open>num_files \<le> int (length DEVELOPERS)\<close>
    using n by (simp_all add: developers_length)
  from sample_distinct [OF this developers_distinct, of ?st1] obtain selected where
    s: \<open>sample DEVELOPERS num_files ?st1
          = Inr (selected, ?st1\<lparr>rng_pos := rng_pos ?st1 + nat num_files\<rparr>)\<close>
    and sel: \<open>length selected = nat num_files\<close> \<open>distinct selected\<close>
      \<open>set selected \<subseteq> set DEVELOPERS\<close>
    by blast
  let ?st2 = \<open>?st1\<lparr>rng_pos := rng_pos ?st1 + nat num_files\<rparr>\<close>
  have \<open>directory_name \<in> fs_dirs ?st2\<close>
    using assms by simp
  from create_loop_run [OF this, where developers = selected and files_created = \<open>[]\<close>
      and unicode_title = unicode_title]
  obtain picks where
    len: \<open>length picks = length selected\<close>
    and ok: \<open>\<forall>(language, topic, body) \<in> set picks.
              declared language topic \<and> get_content_for_topic unicode_title language topic = Inr body\<close>
    and loop: \<open>create_loop unicode_title directory_name selected [] ?st2 =
             Inr ([] @ map (\<lambda>(developer, language, topic, body).
                           filename_of developer language topic) (zip selected picks),
                  ?st2\<lparr>rng_pos := rng_pos ?st2 + 2 * length selected,
                     fs_files := fs_files ?st2 ++
                       map_of (rev (map (\<lambda>(developer, language, topic, body).
                          ((directory_name, filename_of developer language topic), body))
                          (zip selected picks)))\<rparr>)\<close>
    by blast
  have \<open>3 \<le> length selected\<close> \<open>length selected \<le> 6\<close>
    using n sel(1) by simp_all
  moreover have \<open>create_files_for_directory unicode_title directory_name st =
             Inr (map (\<lambda>(developer, language, topic, body).
                         filename_of developer language topic) (zip selected picks),
                  st\<lparr>rng_pos := rng_pos st + 1 + 3 * length selected,
                     fs_files := fs_files st ++
                       map_of (rev (map (\<lambda>(developer, language, topic, body).
                          ((directory_name, filename_of developer language topic), body))
                          (zip selected picks)))\<rparr>)\<close>
    using r s loop k sel(1) by (simp add: create_files_for_directory_def)
  ultimately show ?thesis
    using sel(2,3) len ok by blast
qed

lemma distinct_map_source: \<open>distinct (map f xs) \<Longrightarrow> distinct xs\<close>
  by (simp add: distinct_map)

lemma developer_of_filename:
  assumes \<open>developer \<in> set DEVELOPERS\<close> and \<open>declared language topic\<close>
  shows \<open>developer_of (filename_of developer language topic) = developer\<close>
  using split_filename [OF developers_no_dot [OF assms(1)] declared_no_dot(2,3) [OF assms(2)]]
  by (simp add: developer_of_def)

lemma create_files_for_directory_files:
  assumes \<open>directory_name \<in> fs_dirs st\<close>
  shows \<open>\<exists>files st'.
           create_files_for_directory unicode_title directory_name st = Inr (files, st') \<and>
           3 \<le> length files \<and> length files \<le> 6 \<and>
           distinct (map developer_of files) \<and>
           fs_dirs st' = fs_dirs st \<and>
           (\<forall>filename \<in> set files. \<exists>developer language topic body.
              developer \<in> set DEVELOPERS \<and> declared language topic \<and>
              get_content_for_topic unicode_title language topic = Inr body \<and>
              filename = filename_of developer language topic \<and>
              fs_files st' (directory_name, filename) = Some body) \<and>
           (\<forall>key. key \<notin> Pair directory_name ` set files \<longrightarrow> fs_files st' key = fs_files st key)\<close>
proof -
  from create_files_for_directory_run [OF assms] obtain selected picks where
    sel: \<open>3 \<le> length selected\<close> \<open>length selected \<le> 6\<close> \<open>distinct selected\<close>
      \<open>set selected \<subseteq> set DEVELOPERS\<close>
    and len: \<open>length picks = length selected\<close>
    and ok: \<open>\<forall>(language, topic, body) \<in> set picks.
              declared language topic \<and> get_content_for_topic unicode_title language topic = Inr body\<close>
    and run: \<open>create_files_for_directory unicode_title directory_name st =
             Inr (map (\<lambda>(developer, language, topic, body).
                         filename_of developer language topic) (zip selected picks),
                  st\<lparr>rng_pos := rng_pos st + 1 + 3 * length selected,
                     fs_files := fs_files st ++
                       map_of (rev (map (\<lambda>(developer, language, topic, body).
                          ((directory_name, filename_of developer language topic), body))
                          (zip selected picks)))\<rparr>)\<close>
    by blast
  let ?z = \<open>zip selected picks\<close>
  let ?files = \<open>map (\<lambda>(developer, language, topic, body).
                         filename_of developer language topic) ?z\<close>
  let ?writes = \<open>map (\<lambda>(developer, language, topic, body).
                          ((directory_name, filename_of developer language topic), body)) ?z\<close>
  let ?st' = \<open>st\<lparr>rng_pos := rng_pos st + 1 + 3 * length selected,
                     fs_files := fs_files st ++ map_of (rev ?writes)\<rparr>\<close>
  have entry: \<open>developer \<in> set DEVELOPERS \<and> declared language topic \<and>
      get_content_for_topic unicode_title language topic = Inr body\<close>
    if \<open>(developer, language, topic, body) \<in> set ?z\<close> for developer language topic body
  proof -
    from that have \<open>developer \<in> set selected\<close> and \<open>(language, topic, body) \<in> set picks\<close>
      by (auto dest: set_zip_leftD set_zip_rightD)
    with sel(4) ok show ?thesis by auto
  qed
  have \<open>map developer_of ?files = map fst ?z\<close>
    by (auto simp: developer_of_filename dest: entry)
  then have devs: \<open>map developer_of ?files = selected\<close>
    using len by simp
  then have dist_dev: \<open>distinct (map developer_of ?files)\<close>
    using sel(3) by simp
  then have dist_files: \<open>distinct ?files\<close>
    by (rule distinct_map_source)
  have keys: \<open>map fst ?writes = map (Pair directory_name) ?files\<close>
    by auto
  have \<open>distinct (map (Pair directory_name) ?files)\<close>
    using dist_files by (simp only: distinct_map) (simp add: inj_on_def)
  then have \<open>distinct (map fst ?writes)\<close>
    by (simp only: keys)
  then have dist_keys: \<open>distinct (map fst (rev ?writes))\<close>
    by (simp only: rev_map [symmetric] distinct_rev)
  have keyset: \<open>set (map fst (rev ?writes)) = Pair directory_name ` set ?files\<close>
    by (simp only: rev_map [symmetric] set_rev keys set_map)
  have written: \<open>\<exists>developer language topic body.
              developer \<in> set DEVELOPERS \<and> declared language topic \<and>
              get_content_for_topic unicode_title language topic = Inr body \<and>
              filename = filename_of developer language topic \<and>
              fs_files ?st' (directory_name, filename) = Some body\<close>
    if \<open>filename \<in> set ?files\<close> for filename
  proof -
    from that obtain developer language topic body where
      z: \<open>(developer, language, topic, body) \<in> set ?z\<close>
      and f: \<open>filename = filename_of developer language topic\<close>
      by auto
    from z have \<open>((directory_name, filename), body) \<in> set (rev ?writes)\<close>
      using f by force
    with dist_keys have \<open>map_of (rev ?writes) (directory_name, filename) = Some body\<close>
      by (rule map_of_is_SomeI)
    then have \<open>fs_files ?st' (directory_name, filename) = Some body\<close>
      by (simp add: map_add_find_right)
    with entry [OF z] f show ?thesis by blast
  qed
  have frame: \<open>fs_files ?st' key = fs_files st key\<close>
    if \<open>key \<notin> Pair directory_name ` set ?files\<close> for key
  proof -
    have \<open>key \<notin> set (map fst (rev ?writes))\<close>
      unfolding keyset by (rule that)
    then have \<open>map_of (rev ?writes) key = None\<close>
      unfolding set_map by (rule map_of_eq_None_iff [THEN iffD2])
    then show ?thesis
      by (simp add: map_add_def)
  qed
  have \<open>length ?files = length selected\<close>
    using len by simp
  then have \<open>3 \<le> length ?files\<close> \<open>length ?files \<le> 6\<close>
    using sel(1,2) by simp_all
  moreover have \<open>fs_dirs ?st' = fs_dirs st\<close>
    by simp
  ultimately show ?thesis
    using run dist_dev written frame by blast
qed

section \<open>The content lookup: claims\<close>

text \<open>
  C1. For every language and every topic, also a language that is no key of the catalog
  and a topic that is no key of the language's content mapping, \<open>get_content_for_topic\<close>
  returns a string and raises nothing; for a pair that is not catalogued the string is the
  fallback template.
\<close>

theorem get_content_for_topic_never_fails:
  \<open>(\<exists>body. get_content_for_topic unicode_title language topic = Inr body) \<and>
   (catalogued language topic = None \<longrightarrow>
      get_content_for_topic unicode_title language topic
        = Inr (fallback_template unicode_title language topic))\<close>
  by (simp add: get_content_for_topic_eq)

theorem get_content_for_topic_never_fails_witness:
  \<open>catalogued ''cobol'' ''testing'' = None \<and>
   get_content_for_topic leave_unchanged ''cobol'' ''testing''
     = Inr (fallback_template leave_unchanged ''cobol'' ''testing'') \<and>
   catalogued ''golang'' ''nonexistent-topic'' = None \<and>
   get_content_for_topic leave_unchanged ''golang'' ''nonexistent-topic''
     = Inr (fallback_template leave_unchanged ''golang'' ''nonexistent-topic'')\<close>
proof -
  have a: \<open>catalogued ''cobol'' ''testing'' = None\<close>
    by (rule catalogued_unknown_language) simp
  show ?thesis
    using a catalogued_golang_nonexistent
      get_content_for_topic_never_fails [where unicode_title = leave_unchanged
        and language = \<open>''cobol''\<close> and topic = \<open>''testing''\<close>]
      get_content_for_topic_never_fails [where unicode_title = leave_unchanged
        and language = \<open>''golang''\<close> and topic = \<open>''nonexistent-topic''\<close>]
    by simp
qed

text \<open>
  C2. For every catalogued (language, topic) pair \<open>get_content_for_topic\<close> returns exactly
  the catalogued body, and that body does not contain the fallback's marker
  \<open>template document\<close>; for \<open>("golang", "code-styling")\<close> the result starts with
  \<open># Golang Code Styling Guidelines\<close>.
\<close>

theorem get_content_for_topic_catalogued:
  \<open>(catalogued language topic = Some body \<longrightarrow>
      get_content_for_topic unicode_title language topic = Inr body \<and>
      \<not> sublist ''template document'' body) \<and>
   (\<exists>styling. get_content_for_topic unicode_title ''golang'' ''code-styling'' = Inr styling \<and>
      prefix ''# Golang Code Styling Guidelines'' styling)\<close>
proof (intro conjI impI)
  assume c: \<open>catalogued language topic = Some body\<close>
  then show \<open>get_content_for_topic unicode_title language topic = Inr body\<close>
    by (simp add: get_content_for_topic_eq)
  from c show \<open>\<not> sublist ''template document'' body\<close>
    by (rule catalogued_unmarked)
next
  have \<open>get_content_for_topic unicode_title ''golang'' ''code-styling''
          = Inr content_golang_code_styling\<close>
    by (simp add: get_content_for_topic_eq catalogued_golang_code_styling)
  then show \<open>\<exists>styling. get_content_for_topic unicode_title ''golang'' ''code-styling'' = Inr styling \<and>
      prefix ''# Golang Code Styling Guidelines'' styling\<close>
    using golang_code_styling_heading by simp
qed

theorem get_content_for_topic_catalogued_witness:
  \<open>catalogued ''python'' ''packaging'' = Some content_python_packaging \<and>
   get_content_for_topic leave_unchanged ''python'' ''packaging'' = Inr content_python_packaging \<and>
   \<not> sublist ''template document'' content_python_packaging\<close>
  using catalogued_python_packaging
    get_content_for_topic_catalogued [where unicode_title = leave_unchanged
      and language = \<open>''python''\<close> and topic = \<open>''packaging''\<close>
      and body = content_python_packaging]
  by simp

text \<open>
  C3. For every (language, topic) pair that is not catalogued, the string returned by
  \<open>get_content_for_topic\<close> contains the language name (as given and title-cased), the
  topic with \<open>-\<close> replaced by spaces and title-cased, and the marker
  \<open>template document\<close>. On ASCII strings the title-cased forms are title-cased in the
  sense of \<open>title_cased\<close>: a letter after a letter in lower case, any other letter in upper
  case, nothing else changed. For \<open>("golang", "nonexistent-topic")\<close> the result contains
  \<open>Golang\<close>, \<open>Nonexistent Topic\<close> and \<open>template document\<close>; for
  \<open>("GoLang", "ERROR-handling")\<close> it contains \<open>Golang\<close> and \<open>Error Handling\<close>.
\<close>

theorem get_content_for_topic_uncatalogued:
  \<open>(catalogued language topic = None \<longrightarrow>
      (\<exists>body. get_content_for_topic unicode_title language topic = Inr body \<and>
         sublist language body \<and> sublist (title unicode_title language) body \<and>
         sublist (title unicode_title (replace_chr (CHR ''-'') (CHR '' '') topic)) body \<and>
         sublist ''template document'' body)) \<and>
   (list_all is_ascii language \<longrightarrow> title_cased language (title unicode_title language)) \<and>
   (list_all is_ascii topic \<longrightarrow>
      title_cased (replace_chr (CHR ''-'') (CHR '' '') topic)
        (title unicode_title (replace_chr (CHR ''-'') (CHR '' '') topic))) \<and>
   (\<exists>body. get_content_for_topic unicode_title ''golang'' ''nonexistent-topic'' = Inr body \<and>
      sublist ''Golang'' body \<and> sublist ''Nonexistent Topic'' body \<and>
      sublist ''template document'' body) \<and>
   (\<exists>body. get_content_for_topic unicode_title ''GoLang'' ''ERROR-handling'' = Inr body \<and>
      sublist ''Golang'' body \<and> sublist ''Error Handling'' body \<and>
      sublist ''template document'' body)\<close>
proof -
  have general: \<open>\<exists>body. get_content_for_topic unicode_title l t = Inr body \<and>
         sublist l body \<and> sublist (title unicode_title l) body \<and>
         sublist (title unicode_title (replace_chr (CHR ''-'') (CHR '' '') t)) body \<and>
         sublist ''template document'' body\<close> if \<open>catalogued l t = None\<close> for l t
    using that by (simp add: get_content_for_topic_eq fallback_mentions)
  have scenario: \<open>\<exists>body. get_content_for_topic unicode_title ''golang'' ''nonexistent-topic'' = Inr body \<and>
      sublist ''Golang'' body \<and> sublist ''Nonexistent Topic'' body \<and>
      sublist ''template document'' body\<close>
    using general [OF catalogued_golang_nonexistent]
    unfolding title_golang title_nonexistent_topic by blast
  have \<open>catalogued ''GoLang'' ''ERROR-handling'' = None\<close>
    by (rule catalogued_unknown_language) simp
  then have mixed: \<open>\<exists>body. get_content_for_topic unicode_title ''GoLang'' ''ERROR-handling'' = Inr body \<and>
      sublist ''Golang'' body \<and> sublist ''Error Handling'' body \<and>
      sublist ''template document'' body\<close>
    using general [of \<open>''GoLang''\<close> \<open>''ERROR-handling''\<close>]
    unfolding title_mixed_language title_mixed_topic by blast
  have \<open>title_cased (replace_chr (CHR ''-'') (CHR '' '') topic)
        (title unicode_title (replace_chr (CHR ''-'') (CHR '' '') topic))\<close>
    if \<open>list_all is_ascii topic\<close>
    using that by (intro title_ascii_cased replace_chr_ascii)
  then show ?thesis
    using general scenario mixed title_ascii_cased [of language unicode_title] by blast
qed

theorem get_content_for_topic_uncatalogued_witness:
  \<open>catalogued ''rust'' ''error-handling'' = None \<and>
   list_all is_ascii ''rust'' \<and> list_all is_ascii ''error-handling'' \<and>
   (\<exists>body. get_content_for_topic leave_unchanged ''rust'' ''error-handling'' = Inr body \<and>
      sublist ''rust'' body \<and> sublist ''Rust'' body \<and> sublist ''Error Handling'' body \<and>
      sublist ''template document'' body) \<and>
   title_cased ''rust'' ''Rust'' \<and> title_cased ''error handling'' ''Error Handling''\<close>
proof -
  have a: \<open>catalogued ''rust'' ''error-handling'' = None\<close>
    by (rule catalogued_unknown_language) simp
  have b: \<open>title leave_unchanged ''rust'' = ''Rust''\<close>
    by code_simp
  have c: \<open>title leave_unchanged (replace_chr (CHR ''-'') (CHR '' '') ''error-handling'')
             = ''Error Handling''\<close>
    by code_simp
  have d: \<open>replace_chr (CHR ''-'') (CHR '' '') ''error-handling'' = ''error handling''\<close>
    by code_simp
  have e: \<open>list_all is_ascii ''rust''\<close> \<open>list_all is_ascii ''error-handling''\<close>
    by (simp_all add: is_ascii_def)
  note c3 = get_content_for_topic_uncatalogued [where unicode_title = leave_unchanged
      and language = \<open>''rust''\<close> and topic = \<open>''error-handling''\<close>]
  from c3 a have \<open>\<exists>body. get_content_for_topic leave_unchanged ''rust'' ''error-handling'' = Inr body \<and>
      sublist ''rust'' body \<and> sublist ''Rust'' body \<and> sublist ''Error Handling'' body \<and>
      sublist ''template document'' body\<close>
    unfolding b c by blast
  moreover have c': \<open>title leave_unchanged ''error handling'' = ''Error Handling''\<close>
    by code_simp
  from c3 e have \<open>title_cased ''rust'' ''Rust''\<close>
    and \<open>title_cased ''error handling'' ''Error Handling''\<close>
    unfolding b d c' by blast+
  ultimately show ?thesis
    using a e by blast
qed

text \<open>
  C4 (as stated). The fallback body is claimed to embed the title-cased, space-separated
  topic inside a heading and inside at least one explanatory (non-heading) sentence. For
  \<open>("golang", "nonexistent-topic")\<close>, which is not catalogued, the title-cased form
  \<open>Nonexistent Topic\<close> occurs in no explanatory line of the body: the overview sentence
  says \<open>nonexistent topic\<close>. Both strings are ASCII, so the body is the same for every
  \<open>unicode_title\<close> (lemma \<open>fallback_template_ascii_any\<close>).
\<close>

theorem fallback_sentence_not_title_cased:
  \<open>catalogued ''golang'' ''nonexistent-topic'' = None \<and>
   get_content_for_topic leave_unchanged ''golang'' ''nonexistent-topic''
     = Inr (fallback_template leave_unchanged ''golang'' ''nonexistent-topic'') \<and>
   title leave_unchanged (replace_chr (CHR ''-'') (CHR '' '') ''nonexistent-topic'')
     = ''Nonexistent Topic'' \<and>
   \<not> list_ex (sublist ''Nonexistent Topic'')
       (explanatory_lines (fallback_template leave_unchanged ''golang'' ''nonexistent-topic''))\<close>
proof -
  have \<open>\<not> list_ex (sublist ''Nonexistent Topic'')
       (explanatory_lines (fallback_template leave_unchanged ''golang'' ''nonexistent-topic''))\<close>
    by code_simp
  then show ?thesis
    by (simp add: catalogued_golang_nonexistent get_content_for_topic_eq title_nonexistent_topic)
qed

text \<open>
  C4 (amended). For every (language, topic) pair that is not catalogued, the fallback
  body starts with the heading \<open># <Language> <Topic> Guidelines\<close> that embeds the topic
  with \<open>-\<close> replaced by spaces and title-cased (for an ASCII topic: title-cased in the
  sense of \<open>title_cased\<close>); it contains the overview sentence, which embeds the topic with
  \<open>-\<close> replaced by spaces but not title-cased; and it ends with the note that marks it as
  a template document. When the language, the topic and their title-cased forms contain
  no line break, these are a heading line, an explanatory line and an explanatory line
  of the body; for ASCII language and topic the title-cased forms contain no line break
  when the language and the topic contain none.
\<close>

theorem fallback_template_embeds_topic:
  \<open>catalogued language topic = None \<Longrightarrow>
   \<exists>body. get_content_for_topic unicode_title language topic = Inr body \<and>
     prefix (''# '' @ title unicode_title language @ '' ''
             @ title unicode_title (replace_chr (CHR ''-'') (CHR '' '') topic)
             @ '' Guidelines\<newline>'') body \<and>
     sublist (''This document contains best practices and guidelines for ''
              @ replace_chr (CHR ''-'') (CHR '' '') topic @ '' in ''
              @ title unicode_title language @ ''.\<newline>'') body \<and>
     suffix (''*This is a template document. Please customize with specific '' @ language
             @ '' '' @ topic @ '' guidelines.*\<newline>'') body \<and>
     (list_all is_ascii topic \<longrightarrow>
        title_cased (replace_chr (CHR ''-'') (CHR '' '') topic)
          (title unicode_title (replace_chr (CHR ''-'') (CHR '' '') topic))) \<and>
     (CHR ''\<newline>'' \<notin> set language \<and> CHR ''\<newline>'' \<notin> set topic \<and>
      CHR ''\<newline>'' \<notin> set (title unicode_title language) \<and>
      CHR ''\<newline>'' \<notin> set (title unicode_title (replace_chr (CHR ''-'') (CHR '' '') topic)) \<longrightarrow>
        list_ex (sublist (title unicode_title (replace_chr (CHR ''-'') (CHR '' '') topic)))
          (heading_lines body) \<and>
        list_ex (sublist (replace_chr (CHR ''-'') (CHR '' '') topic)) (explanatory_lines body) \<and>
        list_ex (sublist ''template document'') (explanatory_lines body)) \<and>
     (list_all is_ascii language \<and> list_all is_ascii topic \<and>
      CHR ''\<newline>'' \<notin> set language \<and> CHR ''\<newline>'' \<notin> set topic \<longrightarrow>
        CHR ''\<newline>'' \<notin> set (title unicode_title language) \<and>
        CHR ''\<newline>'' \<notin> set (title unicode_title (replace_chr (CHR ''-'') (CHR '' '') topic)))\<close>
proof -
  assume unc: \<open>catalogued language topic = None\<close>
  let ?body = \<open>fallback_template unicode_title language topic\<close>
  let ?t = \<open>replace_chr (CHR ''-'') (CHR '' '') topic\<close>
  let ?h = \<open>''# '' @ title unicode_title language @ '' '' @ title unicode_title ?t
            @ '' Guidelines''\<close>
  let ?o = \<open>''This document contains best practices and guidelines for '' @ ?t @ '' in ''
            @ title unicode_title language @ ''.''\<close>
  let ?n = \<open>''*This is a template document. Please customize with specific '' @ language
            @ '' '' @ topic @ '' guidelines.*''\<close>
  have by_lines: \<open>list_ex (sublist (title unicode_title ?t)) (heading_lines ?body) \<and>
        list_ex (sublist ?t) (explanatory_lines ?body) \<and>
        list_ex (sublist ''template document'') (explanatory_lines ?body)\<close>
    if \<open>CHR ''\<newline>'' \<notin> set language\<close> and \<open>CHR ''\<newline>'' \<notin> set topic\<close>
      and \<open>CHR ''\<newline>'' \<notin> set (title unicode_title language)\<close>
      and \<open>CHR ''\<newline>'' \<notin> set (title unicode_title ?t)\<close>
  proof -
    from fallback_lines [OF that] obtain ls where
      ls: \<open>str_lines ?body = ?h # [] # ''## Overview'' # ?o # ls @ [?n, []]\<close>
      by blast
    have \<open>sublist (title unicode_title ?t)
            ((''# '' @ title unicode_title language @ '' '') @ title unicode_title ?t
              @ '' Guidelines'')\<close>
      by (rule sublist_appendI)
    then have h: \<open>is_heading ?h \<and> sublist (title unicode_title ?t) ?h\<close>
      by (simp add: is_heading_def)
    have \<open>sublist ?t (''This document contains best practices and guidelines for '' @ ?t
            @ '' in '' @ title unicode_title language @ ''.'')\<close>
      by (rule sublist_appendI)
    then have o: \<open>\<not> is_heading ?o \<and> sublist ?t ?o\<close>
      by (simp add: is_heading_def)
    have \<open>sublist ''template document'' (''*This is a '' @ ''template document''
            @ ''. Please customize with specific '' @ language @ '' '' @ topic
            @ '' guidelines.*'')\<close>
      by (rule sublist_appendI)
    then have n: \<open>\<not> is_heading ?n \<and> sublist ''template document'' ?n\<close>
      by (simp add: is_heading_def)
    have \<open>?h \<in> set (heading_lines ?body)\<close>
      using h by (simp add: heading_lines_def ls)
    moreover have \<open>?o \<in> set (explanatory_lines ?body)\<close>
      using o by (simp add: explanatory_lines_def ls)
    moreover have \<open>?n \<in> set (explanatory_lines ?body)\<close>
      using n by (simp add: explanatory_lines_def ls)
    ultimately show ?thesis
      using h o n unfolding list_ex_iff by blast
  qed
  have cased: \<open>title_cased ?t (title unicode_title ?t)\<close> if \<open>list_all is_ascii topic\<close>
    using that by (intro title_ascii_cased replace_chr_ascii)
  have ascii_lines: \<open>CHR ''\<newline>'' \<notin> set (title unicode_title language) \<and>
        CHR ''\<newline>'' \<notin> set (title unicode_title ?t)\<close>
    if \<open>list_all is_ascii language\<close> and \<open>list_all is_ascii topic\<close>
      and \<open>CHR ''\<newline>'' \<notin> set language\<close> and \<open>CHR ''\<newline>'' \<notin> set topic\<close>
    using that
    by (simp add: title_newline replace_chr_ascii replace_chr_newline)
  have \<open>get_content_for_topic unicode_title language topic = Inr ?body\<close>
    using unc by (simp add: get_content_for_topic_eq)
  moreover note fallback_heading [of unicode_title language topic]
    fallback_overview [of topic unicode_title language]
    fallback_note [of language topic unicode_title]
  ultimately show ?thesis
    using by_lines cased ascii_lines by blast
qed

theorem fallback_template_embeds_topic_witness:
  \<open>catalogued ''react'' ''state-management'' = None \<and>
   list_all is_ascii ''react'' \<and> list_all is_ascii ''state-management'' \<and>
   CHR ''\<newline>'' \<notin> set ''react'' \<and> CHR ''\<newline>'' \<notin> set ''state-management'' \<and>
   CHR ''\<newline>'' \<notin> set ''React'' \<and> CHR ''\<newline>'' \<notin> set ''State Management'' \<and>
   title_cased ''state management'' ''State Management'' \<and>
   (\<exists>body. get_content_for_topic leave_unchanged ''react'' ''state-management'' = Inr body \<and>
      prefix ''# React State Management Guidelines\<newline>'' body \<and>
      list_ex (sublist ''State Management'') (heading_lines body) \<and>
      list_ex (sublist ''state management'') (explanatory_lines body) \<and>
      list_ex (sublist ''template document'') (explanatory_lines body))\<close>
proof -
  have a: \<open>catalogued ''react'' ''state-management'' = None\<close>
    by (simp add: catalogued_def LANGUAGE_CONTENT_def spec_react_def)
  have b: \<open>CHR ''\<newline>'' \<notin> set ''react''\<close> \<open>CHR ''\<newline>'' \<notin> set ''state-management''\<close>
    \<open>CHR ''\<newline>'' \<notin> set ''React''\<close> \<open>CHR ''\<newline>'' \<notin> set ''State Management''\<close>
    by simp_all
  have c: \<open>title leave_unchanged ''react'' = ''React''\<close>
    by code_simp
  have d: \<open>replace_chr (CHR ''-'') (CHR '' '') ''state-management'' = ''state management''\<close>
    by code_simp
  have e: \<open>title leave_unchanged ''state management'' = ''State Management''\<close>
    by code_simp
  have f: \<open>list_all is_ascii ''react''\<close> \<open>list_all is_ascii ''state-management''\<close>
    by (simp_all add: is_ascii_def)
  from fallback_template_embeds_topic [OF a, where unicode_title = leave_unchanged]
  obtain body where
    \<open>get_content_for_topic leave_unchanged ''react'' ''state-management'' = Inr body\<close>
    \<open>prefix (''# '' @ ''React'' @ '' '' @ ''State Management'' @ '' Guidelines\<newline>'') body\<close>
    \<open>title_cased ''state management'' ''State Management''\<close>
    \<open>list_ex (sublist ''State Management'') (heading_lines body)\<close>
    \<open>list_ex (sublist ''state management'') (explanatory_lines body)\<close>
    \<open>list_ex (sublist ''template document'') (explanatory_lines body)\<close>
    unfolding c d e using b f by blast
  then show ?thesis
    using a b f by auto
qed

section \<open>The file populator: claims\<close>

lemma example_run:
  \<open>map_sum id fst (create_files_for_directory leave_unchanged ''eyes'' example_world)
     = Inr [''ghonDou.javascript.async.md'', ''emmaWhite.javascript.async.md'',
            ''rajPatel.javascript.async.md'']\<close>
proof -
  have range3: \<open>[0..<3] = [0, 1, 2]\<close>
    by (simp add: eval_nat_numeral)
  have \<open>catalogued ''javascript'' ''async'' = None\<close>
    by (simp add: catalogued_def LANGUAGE_CONTENT_def spec_javascript_def)
  then show ?thesis
    by (simp add: example_world_def create_files_for_directory_def randint_def randbelow_def
        sample_def sample_step_def DEVELOPERS_def create_file_def choice_def catalog_keys
        available_topics_def getitem_def LANGUAGE_CONTENT_def spec_javascript_def
        get_content_for_topic_eq write_file_def filename_of_def Let_def range3)
qed

lemma example_dir: \<open>''eyes'' \<in> fs_dirs example_world\<close>
  by (simp add: example_world_def)

lemma split_example:
  \<open>split_chr (CHR ''.'') ''ghonDou.javascript.async.md''
     = [''ghonDou'', ''javascript'', ''async'', ''md'']\<close>
  by code_simp

text \<open>
  C5. For every directory that \<open>create_files_for_directory\<close> processes, the number of
  files written, which is the length of the returned list of file names, lies between 3
  and 6 and is at most the size of the developer pool; the developer components of the
  returned file names are pairwise distinct. The returned names are distinct, each names
  a file that exists afterwards, and no other file is touched.
\<close>

theorem create_files_for_directory_count:
  \<open>directory_name \<in> fs_dirs st \<Longrightarrow>
   \<exists>files st'.
     create_files_for_directory unicode_title directory_name st = Inr (files, st') \<and>
     3 \<le> length files \<and> length files \<le> min 6 (length DEVELOPERS) \<and>
     distinct (map developer_of files) \<and>
     card (set files) = length files \<and>
     (\<forall>filename \<in> set files. fs_files st' (directory_name, filename) \<noteq> None) \<and>
     (\<forall>key. key \<notin> Pair directory_name ` set files \<longrightarrow> fs_files st' key = fs_files st key)\<close>
proof -
  assume \<open>directory_name \<in> fs_dirs st\<close>
  from create_files_for_directory_files [OF this] obtain files st' where
    run: \<open>create_files_for_directory unicode_title directory_name st = Inr (files, st')\<close>
    and len: \<open>3 \<le> length files\<close> \<open>length files \<le> 6\<close>
    and dev: \<open>distinct (map developer_of files)\<close>
    and written: \<open>\<forall>filename \<in> set files. \<exists>developer language topic body.
              developer \<in> set DEVELOPERS \<and> declared language topic \<and>
              get_content_for_topic unicode_title language topic = Inr body \<and>
              filename = filename_of developer language topic \<and>
              fs_files st' (directory_name, filename) = Some body\<close>
    and frame: \<open>\<forall>key. key \<notin> Pair directory_name ` set files \<longrightarrow> fs_files st' key = fs_files st key\<close>
    by blast
  from dev have \<open>distinct files\<close>
    by (rule distinct_map_source)
  then have \<open>card (set files) = length files\<close>
    by (rule distinct_card)
  moreover have \<open>length files \<le> min 6 (length DEVELOPERS)\<close>
    using len(2) by (simp add: developers_length)
  moreover have \<open>\<forall>filename \<in> set files. fs_files st' (directory_name, filename) \<noteq> None\<close>
    using written by fastforce
  ultimately show ?thesis
    using run len(1) dev frame by blast
qed

theorem create_files_for_directory_count_witness:
  \<open>''eyes'' \<in> fs_dirs example_world \<and>
   (\<exists>files st'.
      create_files_for_directory leave_unchanged ''eyes'' example_world = Inr (files, st') \<and>
      files = [''ghonDou.javascript.async.md'', ''emmaWhite.javascript.async.md'',
               ''rajPatel.javascript.async.md''] \<and>
      3 \<le> length files \<and> length files \<le> min 6 (length DEVELOPERS) \<and>
      distinct (map developer_of files) \<and>
      fs_files st' (''eyes'', ''ghonDou.javascript.async.md'') \<noteq> None \<and>
      fs_files st' (''eyes'', ''sarahLee.golang.testing.md'') = None)\<close>
proof -
  from create_files_for_directory_count [OF example_dir, where unicode_title = leave_unchanged] obtain files st' where
    run: \<open>create_files_for_directory leave_unchanged ''eyes'' example_world = Inr (files, st')\<close>
    and props: \<open>3 \<le> length files\<close> \<open>length files \<le> min 6 (length DEVELOPERS)\<close>
      \<open>distinct (map developer_of files)\<close>
    and written: \<open>\<forall>filename \<in> set files. fs_files st' (''eyes'', filename) \<noteq> None\<close>
    and frame: \<open>\<forall>key. key \<notin> Pair ''eyes'' ` set files \<longrightarrow>
                  fs_files st' key = fs_files example_world key\<close>
    by blast
  from run example_run have files: \<open>files = [''ghonDou.javascript.async.md'',
      ''emmaWhite.javascript.async.md'', ''rajPatel.javascript.async.md'']\<close>
    by simp
  have \<open>fs_files st' (''eyes'', ''ghonDou.javascript.async.md'') \<noteq> None\<close>
    using written files by simp
  moreover have \<open>(''eyes'', ''sarahLee.golang.testing.md'') \<notin> Pair ''eyes'' ` set files\<close>
    using files by simp
  then have \<open>fs_files st' (''eyes'', ''sarahLee.golang.testing.md'') = None\<close>
    using frame by (simp add: example_world_def)
  ultimately show ?thesis
    using example_dir run files props by blast
qed

text \<open>
  C6. For every file written by \<open>create_files_for_directory\<close>, splitting its name on
  \<open>.\<close> gives exactly the developer, the language, the topic and \<open>md\<close>, where the
  developer is from the pool, the topic is declared for the language, and the file holds
  the content of that language and topic.
\<close>

theorem create_files_for_directory_filenames:
  \<open>directory_name \<in> fs_dirs st \<Longrightarrow>
   \<exists>files st'.
     create_files_for_directory unicode_title directory_name st = Inr (files, st') \<and>
     (\<forall>filename \<in> set files. \<exists>developer language topic body.
        developer \<in> set DEVELOPERS \<and> declared language topic \<and>
        filename = filename_of developer language topic \<and>
        get_content_for_topic unicode_title language topic = Inr body \<and>
        fs_files st' (directory_name, filename) = Some body \<and>
        split_chr (CHR ''.'') filename = [developer, language, topic, ''md''])\<close>
proof -
  assume \<open>directory_name \<in> fs_dirs st\<close>
  from create_files_for_directory_files [OF this] obtain files st' where
    run: \<open>create_files_for_directory unicode_title directory_name st = Inr (files, st')\<close>
    and written: \<open>\<forall>filename \<in> set files. \<exists>developer language topic body.
              developer \<in> set DEVELOPERS \<and> declared language topic \<and>
              get_content_for_topic unicode_title language topic = Inr body \<and>
              filename = filename_of developer language topic \<and>
              fs_files st' (directory_name, filename) = Some body\<close>
    by blast
  have \<open>\<exists>developer language topic body.
        developer \<in> set DEVELOPERS \<and> declared language topic \<and>
        filename = filename_of developer language topic \<and>
        get_content_for_topic unicode_title language topic = Inr body \<and>
        fs_files st' (directory_name, filename) = Some body \<and>
        split_chr (CHR ''.'') filename = [developer, language, topic, ''md'']\<close>
    if \<open>filename \<in> set files\<close> for filename
  proof -
    from written that obtain developer language topic body where
      w: \<open>developer \<in> set DEVELOPERS\<close> \<open>declared language topic\<close>
        \<open>get_content_for_topic unicode_title language topic = Inr body\<close>
        \<open>filename = filename_of developer language topic\<close>
        \<open>fs_files st' (directory_name, filename) = Some body\<close>
      by blast
    have \<open>split_chr (CHR ''.'') filename = [developer, language, topic, ''md'']\<close>
      unfolding w(4)
      using developers_no_dot [OF w(1)] declared_no_dot(2,3) [OF w(2)] by (rule split_filename)
    with w show ?thesis by blast
  qed
  with run show ?thesis by blast
qed

theorem create_files_for_directory_filenames_witness:
  \<open>''eyes'' \<in> fs_dirs example_world \<and>
   (\<exists>files st'.
      create_files_for_directory leave_unchanged ''eyes'' example_world = Inr (files, st') \<and>
      ''ghonDou.javascript.async.md'' \<in> set files \<and>
      (\<exists>body. get_content_for_topic leave_unchanged ''javascript'' ''async'' = Inr body \<and>
         fs_files st' (''eyes'', ''ghonDou.javascript.async.md'') = Some body) \<and>
      split_chr (CHR ''.'') ''ghonDou.javascript.async.md''
        = [''ghonDou'', ''javascript'', ''async'', ''md''])\<close>
proof -
  from create_files_for_directory_filenames [OF example_dir, where unicode_title = leave_unchanged] obtain files st' where
    run: \<open>create_files_for_directory leave_unchanged ''eyes'' example_world = Inr (files, st')\<close>
    and named: \<open>\<forall>filename \<in> set files. \<exists>developer language topic body.
        developer \<in> set DEVELOPERS \<and> declared language topic \<and>
        filename = filename_of developer language topic \<and>
        get_content_for_topic leave_unchanged language topic = Inr body \<and>
        fs_files st' (''eyes'', filename) = Some body \<and>
        split_chr (CHR ''.'') filename = [developer, language, topic, ''md'']\<close>
    by blast
  from run example_run have mem: \<open>''ghonDou.javascript.async.md'' \<in> set files\<close>
    by auto
  with named obtain developer language topic body where
    \<open>get_content_for_topic leave_unchanged language topic = Inr body\<close>
    \<open>fs_files st' (''eyes'', ''ghonDou.javascript.async.md'') = Some body\<close>
    \<open>split_chr (CHR ''.'') ''ghonDou.javascript.async.md'' = [developer, language, topic, ''md'']\<close>
    by blast
  then have \<open>\<exists>body. get_content_for_topic leave_unchanged ''javascript'' ''async'' = Inr body \<and>
         fs_files st' (''eyes'', ''ghonDou.javascript.async.md'') = Some body\<close>
    and \<open>split_chr (CHR ''.'') ''ghonDou.javascript.async.md''
        = [''ghonDou'', ''javascript'', ''async'', ''md'']\<close>
    using split_example by auto
  with example_dir run mem show ?thesis by blast
qed

text \<open>
  C9. The catalog has no body for six declared topics: \<open>async\<close>, \<open>modules\<close> and
  \<open>performance\<close> of \<open>javascript\<close>, and \<open>state-management\<close>, \<open>performance\<close> and \<open>testing\<close> of
  \<open>react\<close>. Each is in its language's topic list, and for each \<open>get_content_for_topic\<close>
  returns the fallback template, which contains \<open>template document\<close>. Every file that
  \<open>create_files_for_directory\<close> writes under a name whose language and topic are one of
  these pairs holds that template.
\<close>

theorem catalog_incomplete_pairs:
  \<open>(\<forall>(language, topic) \<in> set [(''javascript'', ''async''), (''javascript'', ''modules''),
        (''javascript'', ''performance''), (''react'', ''state-management''),
        (''react'', ''performance''), (''react'', ''testing'')].
      declared language topic \<and> catalogued language topic = None \<and>
      get_content_for_topic unicode_title language topic = Inr (fallback_template unicode_title language topic) \<and>
      sublist ''template document'' (fallback_template unicode_title language topic)) \<and>
   (directory_name \<in> fs_dirs st \<longrightarrow>
      (\<exists>files st'.
         create_files_for_directory unicode_title directory_name st = Inr (files, st') \<and>
         (\<forall>filename \<in> set files. \<forall>developer language topic.
            split_chr (CHR ''.'') filename = [developer, language, topic, ''md''] \<and>
            (language, topic) \<in> set [(''javascript'', ''async''), (''javascript'', ''modules''),
              (''javascript'', ''performance''), (''react'', ''state-management''),
              (''react'', ''performance''), (''react'', ''testing'')] \<longrightarrow>
            fs_files st' (directory_name, filename) = Some (fallback_template unicode_title language topic))))\<close>
proof (intro conjI impI)
  have none: \<open>catalogued language topic = None\<close>
    if \<open>(language, topic) \<in> set [(''javascript'', ''async''), (''javascript'', ''modules''),
        (''javascript'', ''performance''), (''react'', ''state-management''),
        (''react'', ''performance''), (''react'', ''testing'')]\<close> for language topic
    using that
    by (auto simp: catalogued_def LANGUAGE_CONTENT_def spec_javascript_def spec_react_def)
  have decl: \<open>declared language topic\<close>
    if \<open>(language, topic) \<in> set [(''javascript'', ''async''), (''javascript'', ''modules''),
        (''javascript'', ''performance''), (''react'', ''state-management''),
        (''react'', ''performance''), (''react'', ''testing'')]\<close> for language topic
    using that
    by (auto simp: declared_def LANGUAGE_CONTENT_def spec_javascript_def spec_react_def)
  show \<open>\<forall>(language, topic) \<in> set [(''javascript'', ''async''), (''javascript'', ''modules''),
        (''javascript'', ''performance''), (''react'', ''state-management''),
        (''react'', ''performance''), (''react'', ''testing'')].
      declared language topic \<and> catalogued language topic = None \<and>
      get_content_for_topic unicode_title language topic = Inr (fallback_template unicode_title language topic) \<and>
      sublist ''template document'' (fallback_template unicode_title language topic)\<close>
    using none decl
    by (auto simp only: get_content_for_topic_eq fallback_mentions(5) option.case)
  assume \<open>directory_name \<in> fs_dirs st\<close>
  from create_files_for_directory_files [OF this] obtain files st' where
    run: \<open>create_files_for_directory unicode_title directory_name st = Inr (files, st')\<close>
    and written: \<open>\<forall>filename \<in> set files. \<exists>developer language topic body.
              developer \<in> set DEVELOPERS \<and> declared language topic \<and>
              get_content_for_topic unicode_title language topic = Inr body \<and>
              filename = filename_of developer language topic \<and>
              fs_files st' (directory_name, filename) = Some body\<close>
    by blast
  have \<open>fs_files st' (directory_name, filename) = Some (fallback_template unicode_title language topic)\<close>
    if f: \<open>filename \<in> set files\<close>
      and s: \<open>split_chr (CHR ''.'') filename = [developer, language, topic, ''md'']\<close>
      and p: \<open>(language, topic) \<in> set [(''javascript'', ''async''), (''javascript'', ''modules''),
              (''javascript'', ''performance''), (''react'', ''state-management''),
              (''react'', ''performance''), (''react'', ''testing'')]\<close>
    for filename developer language topic
  proof -
    from written f obtain developer' language' topic' body where
      w: \<open>developer' \<in> set DEVELOPERS\<close> \<open>declared language' topic'\<close>
        \<open>get_content_for_topic unicode_title language' topic' = Inr body\<close>
        \<open>filename = filename_of developer' language' topic'\<close>
        \<open>fs_files st' (directory_name, filename) = Some body\<close>
      by blast
    have \<open>split_chr (CHR ''.'') filename = [developer', language', topic', ''md'']\<close>
      unfolding w(4)
      using developers_no_dot [OF w(1)] declared_no_dot(2,3) [OF w(2)] by (rule split_filename)
    with s have \<open>language' = language\<close> and \<open>topic' = topic\<close>
      by simp_all
    with w(3) none [OF p] have \<open>body = fallback_template unicode_title language topic\<close>
      by (simp add: get_content_for_topic_eq)
    with w(5) show ?thesis by simp
  qed
  with run show \<open>\<exists>files st'.
         create_files_for_directory unicode_title directory_name st = Inr (files, st') \<and>
         (\<forall>filename \<in> set files. \<forall>developer language topic.
            split_chr (CHR ''.'') filename = [developer, language, topic, ''md''] \<and>
            (language, topic) \<in> set [(''javascript'', ''async''), (''javascript'', ''modules''),
              (''javascript'', ''performance''), (''react'', ''state-management''),
              (''react'', ''performance''), (''react'', ''testing'')] \<longrightarrow>
            fs_files st' (directory_name, filename) = Some (fallback_template unicode_title language topic))\<close>
    by blast
qed

theorem catalog_incomplete_pairs_witness:
  \<open>declared ''javascript'' ''async'' \<and> catalogued ''javascript'' ''async'' = None \<and>
   get_content_for_topic leave_unchanged ''javascript'' ''async'' = Inr (fallback_template leave_unchanged ''javascript'' ''async'') \<and>
   ''eyes'' \<in> fs_dirs example_world \<and>
   (\<exists>files st'.
      create_files_for_directory leave_unchanged ''eyes'' example_world = Inr (files, st') \<and>
      ''ghonDou.javascript.async.md'' \<in> set files \<and>
      split_chr (CHR ''.'') ''ghonDou.javascript.async.md''
        = [''ghonDou'', ''javascript'', ''async'', ''md''] \<and>
      fs_files st' (''eyes'', ''ghonDou.javascript.async.md'')
        = Some (fallback_template leave_unchanged ''javascript'' ''async''))\<close>
proof -
  note c9 = catalog_incomplete_pairs [where unicode_title = leave_unchanged
      and directory_name = \<open>''eyes''\<close> and st = example_world]
  from c9 have pair: \<open>declared ''javascript'' ''async'' \<and>
      catalogued ''javascript'' ''async'' = None \<and>
      get_content_for_topic leave_unchanged ''javascript'' ''async''
        = Inr (fallback_template leave_unchanged ''javascript'' ''async'')\<close>
    by simp
  from c9 example_dir obtain files st' where
    run: \<open>create_files_for_directory leave_unchanged ''eyes'' example_world = Inr (files, st')\<close>
    and tmpl: \<open>\<forall>filename \<in> set files. \<forall>developer language topic.
            split_chr (CHR ''.'') filename = [developer, language, topic, ''md''] \<and>
            (language, topic) \<in> set [(''javascript'', ''async''), (''javascript'', ''modules''),
              (''javascript'', ''performance''), (''react'', ''state-management''),
              (''react'', ''performance''), (''react'', ''testing'')] \<longrightarrow>
            fs_files st' (''eyes'', filename) = Some (fallback_template leave_unchanged language topic)\<close>
    by blast
  from run example_run have mem: \<open>''ghonDou.javascript.async.md'' \<in> set files\<close>
    by auto
  have \<open>(''javascript'', ''async'') \<in> set [(''javascript'', ''async''), (''javascript'', ''modules''),
              (''javascript'', ''performance''), (''react'', ''state-management''),
              (''react'', ''performance''), (''react'', ''testing'')]\<close>
    by simp
  with tmpl mem split_example
  have \<open>fs_files st' (''eyes'', ''ghonDou.javascript.async.md'')
        = Some (fallback_template leave_unchanged ''javascript'' ''async'')\<close>
    by blast
  with pair example_dir run mem split_example show ?thesis by blast
qed

text \<open>
  C10. For every file written by \<open>create_files_for_directory\<close>, the language component
  of its name is one of the four catalog keys \<open>golang\<close>, \<open>python\<close>, \<open>javascript\<close>, \<open>react\<close>
  and the topic component is in that language's \<open>"topics"\<close> list; no other file of the
  file system is created or changed.
\<close>

theorem create_files_for_directory_within_catalog:
  \<open>directory_name \<in> fs_dirs st \<Longrightarrow>
   \<exists>files st'.
     create_files_for_directory unicode_title directory_name st = Inr (files, st') \<and>
     (\<forall>filename \<in> set files. \<exists>developer language topic spec.
        split_chr (CHR ''.'') filename = [developer, language, topic, ''md''] \<and>
        language \<in> set [''golang'', ''python'', ''javascript'', ''react''] \<and>
        language \<in> set (map fst LANGUAGE_CONTENT) \<and>
        getitem LANGUAGE_CONTENT language = Inr spec \<and>
        topic \<in> set (topics spec)) \<and>
     (\<forall>key. key \<notin> Pair directory_name ` set files \<longrightarrow> fs_files st' key = fs_files st key)\<close>
proof -
  assume \<open>directory_name \<in> fs_dirs st\<close>
  from create_files_for_directory_files [OF this] obtain files st' where
    run: \<open>create_files_for_directory unicode_title directory_name st = Inr (files, st')\<close>
    and written: \<open>\<forall>filename \<in> set files. \<exists>developer language topic body.
              developer \<in> set DEVELOPERS \<and> declared language topic \<and>
              get_content_for_topic unicode_title language topic = Inr body \<and>
              filename = filename_of developer language topic \<and>
              fs_files st' (directory_name, filename) = Some body\<close>
    and frame: \<open>\<forall>key. key \<notin> Pair directory_name ` set files \<longrightarrow> fs_files st' key = fs_files st key\<close>
    by blast
  have \<open>\<exists>developer language topic spec.
        split_chr (CHR ''.'') filename = [developer, language, topic, ''md''] \<and>
        language \<in> set [''golang'', ''python'', ''javascript'', ''react''] \<and>
        language \<in> set (map fst LANGUAGE_CONTENT) \<and>
        getitem LANGUAGE_CONTENT language = Inr spec \<and>
        topic \<in> set (topics spec)\<close>
    if \<open>filename \<in> set files\<close> for filename
  proof -
    from written that obtain developer language topic where
      w: \<open>developer \<in> set DEVELOPERS\<close> \<open>declared language topic\<close>
        \<open>filename = filename_of developer language topic\<close>
      by blast
    have s: \<open>split_chr (CHR ''.'') filename = [developer, language, topic, ''md'']\<close>
      unfolding w(3)
      using developers_no_dot [OF w(1)] declared_no_dot(2,3) [OF w(2)] by (rule split_filename)
    from w(2) obtain spec where
      spec: \<open>map_of LANGUAGE_CONTENT language = Some spec\<close> \<open>topic \<in> set (topics spec)\<close>
      by (auto simp: declared_def split: option.splits)
    then have \<open>getitem LANGUAGE_CONTENT language = Inr spec\<close>
      by (simp add: getitem_def)
    moreover have k: \<open>language \<in> set [''golang'', ''python'', ''javascript'', ''react'']\<close>
      using w(2) by (rule declared_no_dot(1))
    moreover from k have \<open>language \<in> set (map fst LANGUAGE_CONTENT)\<close>
      by (simp only: catalog_keys)
    ultimately show ?thesis
      using s spec(2) by blast
  qed
  with run frame show ?thesis by blast
qed

theorem create_files_for_directory_within_catalog_witness:
  \<open>''eyes'' \<in> fs_dirs example_world \<and>
   (\<exists>files st'.
      create_files_for_directory leave_unchanged ''eyes'' example_world = Inr (files, st') \<and>
      ''emmaWhite.javascript.async.md'' \<in> set files \<and>
      (\<exists>developer language topic spec.
         split_chr (CHR ''.'') ''emmaWhite.javascript.async.md''
           = [developer, language, topic, ''md''] \<and>
         language \<in> set [''golang'', ''python'', ''javascript'', ''react''] \<and>
         getitem LANGUAGE_CONTENT language = Inr spec \<and> topic \<in> set (topics spec)) \<and>
      fs_files st' (''eyes'', ''emmaWhite.cobol.loops.md'') = None)\<close>
proof -
  from create_files_for_directory_within_catalog [OF example_dir, where unicode_title = leave_unchanged] obtain files st' where
    run: \<open>create_files_for_directory leave_unchanged ''eyes'' example_world = Inr (files, st')\<close>
    and inside: \<open>\<forall>filename \<in> set files. \<exists>developer language topic spec.
        split_chr (CHR ''.'') filename = [developer, language, topic, ''md''] \<and>
        language \<in> set [''golang'', ''python'', ''javascript'', ''react''] \<and>
        language \<in> set (map fst LANGUAGE_CONTENT) \<and>
        getitem LANGUAGE_CONTENT language = Inr spec \<and>
        topic \<in> set (topics spec)\<close>
    and frame: \<open>\<forall>key. key \<notin> Pair ''eyes'' ` set files \<longrightarrow>
                  fs_files st' key = fs_files example_world key\<close>
    by blast
  from run example_run have files: \<open>files = [''ghonDou.javascript.async.md'',
      ''emmaWhite.javascript.async.md'', ''rajPatel.javascript.async.md'']\<close>
    by simp
  then have mem: \<open>''emmaWhite.javascript.async.md'' \<in> set files\<close>
    by simp
  with inside have \<open>\<exists>developer language topic spec.
         split_chr (CHR ''.'') ''emmaWhite.javascript.async.md''
           = [developer, language, topic, ''md''] \<and>
         language \<in> set [''golang'', ''python'', ''javascript'', ''react''] \<and>
         getitem LANGUAGE_CONTENT language = Inr spec \<and> topic \<in> set (topics spec)\<close>
    by blast
  moreover have \<open>(''eyes'', ''emmaWhite.cobol.loops.md'') \<notin> Pair ''eyes'' ` set files\<close>
    using files by simp
  then have \<open>fs_files st' (''eyes'', ''emmaWhite.cobol.loops.md'') = None\<close>
    using frame by (simp add: example_world_def)
  ultimately show ?thesis
    using example_dir run mem by blast
qed

end
